theory Spec2Isabelle
  imports Main "HOL-Library.Char_ord" "HOL-Library.List_Lexorder"
begin

section \<open>Container-based builder: data model\<close>

text \<open>
  The embedding follows \<^verbatim>\<open>internal/builders/docker/pkg/builder.go\<close>. Go strings are byte
  sequences, modelled as \<^typ>\<open>string\<close> (a list of 8-bit characters). Go errors are values of
  the datatype \<open>error\<close>, one constructor for each place where the source builds an error;
  a wrapped error is an argument of the wrapping constructor.
\<close>

text \<open>Modelled from the spec: the declaration of \<^verbatim>\<open>Digest\<close> (a hash algorithm and value pair)
  is not part of the file; the source reads its fields \<^verbatim>\<open>Alg\<close> and \<^verbatim>\<open>Value\<close>.\<close>

record Digest =
  Alg :: string
  Value :: string

text \<open>Modelled from the spec: the declaration of \<^verbatim>\<open>DockerImage\<close> is not part of the file.
  The spec describes an image reference as a registry/repository path, a tag or reference and
  a digest; the source reads only the digest and calls \<^verbatim>\<open>ToString\<close>.\<close>

record DockerImage =
  ImagePath :: string
  ImageRef :: string
  Digest_img :: Digest

text \<open>Modelled from the spec: the declaration of \<^verbatim>\<open>DockerBuildConfig\<close> is not part of the
  file; these are the fields that the source reads and writes.\<close>

record DockerBuildConfig =
  SourceRepo :: string
  SourceDigest :: Digest
  BuilderImage_cfg :: DockerImage
  BuildConfigPath :: string
  ForceCheckout :: bool
  Verbose :: bool

text \<open>Modelled from the spec: the declaration of \<^verbatim>\<open>BuildConfig\<close> is not part of the file.
  A Go slice may be \<^verbatim>\<open>nil\<close>, which is \<open>None\<close> here.\<close>

record BuildConfig =
  Command :: "string list option"
  ArtifactPath :: string

record RepoCheckoutInfo =
  RepoRoot :: string

text \<open>A Go \<^verbatim>\<open>map[string]string\<close> is an association list with distinct keys in ascending
  order, so that equal maps are equal lists; \<open>None\<close> is the \<^verbatim>\<open>nil\<close> map.\<close>

type_synonym DigestSet = "(string \<times> string) list"

text \<open>The resource descriptor of the in-toto library; of its fields the source sets the URI
  and the digest set, the others keep their zero value.\<close>

record ResourceDescriptor =
  URI :: string
  Digest :: "DigestSet option"

record Subject =
  Name :: string
  Digest_subj :: DigestSet

record GitClient =
  sourceRepo :: string
  sourceRef :: "string option"
  sourceDigest :: Digest
  checkoutInfo :: RepoCheckoutInfo
  logFiles :: "string list"
  errFiles :: "string list"
  forceCheckout :: bool
  verbose :: bool
  depth :: int

datatype error =
    ErrParseRepoURI
  | ErrUnsupportedScheme string
  | ErrInvalidRepoFormat string
  | ErrCreateBuilder error
  | ErrNotSha1Digest
  | ErrGitCommitMismatch string
  | ErrFetchSources string Digest error
  | ErrCreateTempDir
  | ErrCreateDirs string
  | ErrChdir string
  | ErrGitFetch error
  | ErrGetwd
  | ErrGitCheckout error
  | ErrStdoutPipe
  | ErrStderrPipe
  | ErrStart
  | ErrSaveLogs
  | ErrCommandFailed string string
  | ErrVerifyRefAndCommit "error option"
  | ErrVerifyOrFetch error
  | ErrLoadConfig string
  | ErrMalformedPattern string
  | ErrExistingFiles string nat
  | ErrDockerRun error
  | ErrNotContainerBased
  | ErrNoFilesMatching string
  | ErrReadFile string
  | ErrAbs
  | ErrRel string string
  | ErrCreateOutputFile
  | ErrWriteOutputFile
  | ErrUnmarshalProvenance
  | ErrUnmarshalBuildConfig
  | ErrCastExternalParameters
  | ErrValidateImage
  | ErrInvalidImageDigest
  | ErrMissingSha1Digest
  | ErrCreateTemp
  | ErrWriteTemp

section \<open>The environment\<close>

text \<open>
  What a command started with its output pipes can do, in the order of the calls the source
  makes: \<^verbatim>\<open>StdoutPipe\<close>, \<^verbatim>\<open>StderrPipe\<close>, \<^verbatim>\<open>Start\<close>, \<^verbatim>\<open>saveToTempFile\<close>, \<^verbatim>\<open>Wait\<close>.
  The two strings are the names of the log files.
\<close>

datatype run_result =
    StdoutPipeFailed
  | StderrPipeFailed
  | StartFailed
  | SaveLogsFailed
  | WaitFailed string string
  | Completed string string

datatype write_result = CreateFailed | WriteFailed | Written

text \<open>
  The operating system, the file system and the helpers of the repository that are not part
  of the file are functions of a world \<open>'w\<close>; an operation with an effect returns the next
  world. \<open>None\<close> and \<open>False\<close> are the failure of the call.
\<close>

record 'w env =
  cmd_Output :: "'w \<Rightarrow> string list \<Rightarrow> string option \<times> 'w"
  cmd_capture :: "'w \<Rightarrow> bool \<Rightarrow> string list \<Rightarrow> run_result \<times> 'w"
  MkdirTemp :: "'w \<Rightarrow> string option \<times> 'w"
  MkdirAll :: "'w \<Rightarrow> string \<Rightarrow> bool \<times> 'w"
  Chdir :: "'w \<Rightarrow> string \<Rightarrow> bool \<times> 'w"
  Getwd :: "'w \<Rightarrow> string option"
  bad_pattern :: "string \<Rightarrow> bool"
  glob_matches :: "'w \<Rightarrow> string \<Rightarrow> string list"
  LoadBuildConfigFromFile :: "'w \<Rightarrow> DockerBuildConfig \<Rightarrow> BuildConfig option"
  SafeReadFile :: "'w \<Rightarrow> string \<Rightarrow> string option"
  filepath_Abs :: "'w \<Rightarrow> string \<Rightarrow> string option"
  filepath_Rel :: "string \<Rightarrow> string \<Rightarrow> string option"
  write_output :: "'w \<Rightarrow> string \<Rightarrow> string \<Rightarrow> string \<Rightarrow> write_result \<times> 'w"
  authority_path_ok :: "string \<Rightarrow> string \<Rightarrow> bool"
  fragment_ok :: "string \<Rightarrow> bool"
  Sum256 :: "string \<Rightarrow> string"
  ImageToString :: "DockerImage \<Rightarrow> string"
  validateDockerImage :: "string \<Rightarrow> DockerImage option"
  ContainerBasedBuildType :: string
  CreateTemp :: "'w \<Rightarrow> string option \<times> 'w"
  file_Write :: "'w \<Rightarrow> string \<Rightarrow> string \<Rightarrow> bool \<times> 'w"

text \<open>The state of the process: the world, and the argument vectors of the external
  commands it has started, oldest first.\<close>

record 'w proc =
  world :: 'w
  invoked :: "string list list"

section \<open>Functions of the Go library on strings\<close>

definition HasPrefix :: "string \<Rightarrow> string \<Rightarrow> bool" where
  "HasPrefix s p = (take (length p) s = p)"

definition HasSuffix :: "string \<Rightarrow> string \<Rightarrow> bool" where
  "HasSuffix s p = (length p \<le> length s \<and> drop (length s - length p) s = p)"

definition TrimSuffix :: "string \<Rightarrow> string \<Rightarrow> string" where
  "TrimSuffix s p = (if HasSuffix s p then take (length s - length p) s else s)"

text \<open>\<^verbatim>\<open>strings.Split\<close> with a separator of one byte.\<close>

fun Split :: "string \<Rightarrow> char \<Rightarrow> string list" where
  "Split [] sep = [[]]"
| "Split (c # cs) sep =
     (if c = sep then [] # Split cs sep
      else (case Split cs sep of [] \<Rightarrow> [[c]] | p # ps \<Rightarrow> (c # p) # ps))"

text \<open>\<^verbatim>\<open>strings.Replace(s, old, new, 1)\<close> with a non-empty \<open>old\<close>: the first occurrence.\<close>

fun Replace1 :: "string \<Rightarrow> string \<Rightarrow> string \<Rightarrow> string" where
  "Replace1 [] old new = []"
| "Replace1 (c # cs) old new =
     (if HasPrefix (c # cs) old then new @ drop (length old) (c # cs)
      else c # Replace1 cs old new)"

text \<open>The UTF-8 encodings of the characters that \<^verbatim>\<open>unicode.IsSpace\<close> accepts.\<close>

definition space_runes :: "string list" where
  "space_runes =
     [[CHR 0x09], [CHR 0x0A], [CHR 0x0B], [CHR 0x0C], [CHR 0x0D], [CHR 0x20],
      [CHR 0xC2, CHR 0x85], [CHR 0xC2, CHR 0xA0], [CHR 0xE1, CHR 0x9A, CHR 0x80],
      [CHR 0xE2, CHR 0x80, CHR 0x80], [CHR 0xE2, CHR 0x80, CHR 0x81],
      [CHR 0xE2, CHR 0x80, CHR 0x82], [CHR 0xE2, CHR 0x80, CHR 0x83],
      [CHR 0xE2, CHR 0x80, CHR 0x84], [CHR 0xE2, CHR 0x80, CHR 0x85],
      [CHR 0xE2, CHR 0x80, CHR 0x86], [CHR 0xE2, CHR 0x80, CHR 0x87],
      [CHR 0xE2, CHR 0x80, CHR 0x88], [CHR 0xE2, CHR 0x80, CHR 0x89],
      [CHR 0xE2, CHR 0x80, CHR 0x8A], [CHR 0xE2, CHR 0x80, CHR 0xA8],
      [CHR 0xE2, CHR 0x80, CHR 0xA9], [CHR 0xE2, CHR 0x80, CHR 0xAF],
      [CHR 0xE2, CHR 0x81, CHR 0x9F], [CHR 0xE3, CHR 0x80, CHR 0x80]]"

text \<open>Removing, as long as there is one, a leading occurrence of one of the given
  non-empty byte sequences.\<close>

function strip_leading :: "string list \<Rightarrow> string \<Rightarrow> string" where
  "strip_leading rs s =
     (case find (\<lambda>r. r \<noteq> [] \<and> HasPrefix s r) rs of
        None \<Rightarrow> s
      | Some r \<Rightarrow> strip_leading rs (drop (length r) s))"
  by pat_completeness auto
termination
proof (relation "measure (\<lambda>(rs, s). length s)")
  show "wf (measure (\<lambda>(rs, s). length s))" by simp
next
  fix rs :: "string list" and s r :: string
  assume "find (\<lambda>r. r \<noteq> [] \<and> HasPrefix s r) rs = Some r"
  then have "r \<noteq> [] \<and> HasPrefix s r"
    by (metis (mono_tags, lifting) find_Some_iff)
  then have "r \<noteq> []" and "take (length r) s = r"
    by (simp_all add: HasPrefix_def)
  then have "s \<noteq> []" by auto
  with \<open>r \<noteq> []\<close> show "((rs, drop (length r) s), (rs, s)) \<in> measure (\<lambda>(rs, s). length s)"
    by simp
qed

declare strip_leading.simps [simp del]

text \<open>\<^verbatim>\<open>strings.TrimSpace\<close>: white space is removed at both ends.\<close>

definition TrimSpace :: "string \<Rightarrow> string" where
  "TrimSpace s = rev (strip_leading (map rev space_runes) (rev (strip_leading space_runes s)))"

text \<open>\<^verbatim>\<open>path.Base\<close>, and \<^verbatim>\<open>filepath.Base\<close> where the separator is the slash.\<close>

definition strip_trailing_slashes :: "string \<Rightarrow> string" where
  "strip_trailing_slashes p = rev (dropWhile (\<lambda>c. c = CHR ''/'') (rev p))"

definition Base :: "string \<Rightarrow> string" where
  "Base p =
     (if p = [] then ''.''
      else let q = strip_trailing_slashes p;
               e = rev (takeWhile (\<lambda>c. c \<noteq> CHR ''/'') (rev q))
           in if e = [] then ''/'' else e)"

text \<open>\<^verbatim>\<open>fmt.Sprintf("%d", n)\<close>.\<close>

fun decimal :: "nat \<Rightarrow> string" where
  "decimal n =
     (if n < 10 then [''0123456789'' ! n]
      else decimal (n div 10) @ [''0123456789'' ! (n mod 10)])"

declare decimal.simps [simp del]

definition Sprintf_d :: "int \<Rightarrow> string" where
  "Sprintf_d i = (if i < 0 then CHR ''-'' # decimal (nat (- i)) else decimal (nat i))"

text \<open>\<^verbatim>\<open>hex.EncodeToString\<close>.\<close>

definition hex_byte :: "char \<Rightarrow> string" where
  "hex_byte c =
     [''0123456789abcdef'' ! (of_char c div 16), ''0123456789abcdef'' ! (of_char c mod 16)]"

definition EncodeToString :: "string \<Rightarrow> string" where
  "EncodeToString bs = concat (map hex_byte bs)"

section \<open>Saving the output of a command\<close>

text \<open>
  \<^verbatim>\<open>saveOneTempFile\<close> reads a stream with a \<^verbatim>\<open>bufio.Scanner\<close>, which splits it into lines
  (\<^verbatim>\<open>bufio.ScanLines\<close>) and holds a line and its newline in a buffer of at most
  \<^verbatim>\<open>MaxScanTokenSize\<close> bytes: at a line that does not fit, \<^verbatim>\<open>Scan\<close> returns false, as it does
  at the end of the stream. \<open>scan_lines data\<close> are the lines for which \<^verbatim>\<open>Scan\<close> returns true
  when the reader delivers \<open>data\<close> and then ends.
\<close>

definition MaxScanTokenSize :: nat where
  "MaxScanTokenSize = 64 * 1024"

definition dropCR :: "string \<Rightarrow> string" where
  "dropCR data = (if data \<noteq> [] \<and> last data = CHR 0x0D then butlast data else data)"

function scan_lines :: "string \<Rightarrow> string list" where
  "scan_lines data =
     (if data = [] then []
      else if MaxScanTokenSize \<le> length (takeWhile (\<lambda>c. c \<noteq> CHR 0x0A) data) then []
      else dropCR (takeWhile (\<lambda>c. c \<noteq> CHR 0x0A) data)
             # scan_lines (drop 1 (dropWhile (\<lambda>c. c \<noteq> CHR 0x0A) data)))"
  by pat_completeness auto
termination
proof (relation "measure length", goal_cases)
  case 1
  show ?case by simp
next
  case (2 data)
  have "length (dropWhile (\<lambda>c. c \<noteq> CHR 0x0A) data) \<le> length data"
    by (rule length_dropWhile_le)
  moreover from 2(1) have "0 < length data" by simp
  ultimately have "length (drop 1 (dropWhile (\<lambda>c. c \<noteq> CHR 0x0A) data)) < length data"
    by (simp only: length_drop)
  then show ?case by (simp only: in_measure)
qed

declare scan_lines.simps [simp del]

text \<open>
  The body of \<^verbatim>\<open>saveOneTempFile\<close> for a stream: the loop appends every line and a newline
  to \<open>allBytes\<close> and, in verbose mode, sends the line to the print channel; then the bytes
  are written to a new temporary file. The result is what was sent to the print channel,
  and what is sent to the file channel: an error or the name of the file. The scanner's
  error is not looked at. The goroutines and channels of \<^verbatim>\<open>saveToTempFile\<close>, which runs this
  body once for each stream, are not modelled: for a command, the outcome of the capture is
  the \<open>cmd_capture\<close> of the environment.
\<close>

definition saveOneTempFile ::
  "'w env \<Rightarrow> bool \<Rightarrow> string \<Rightarrow> 'w \<Rightarrow> (string list \<times> (error + string)) \<times> 'w" where
  "saveOneTempFile e verb stream w =
     (let scanned = scan_lines stream;
          allBytes = concat (map (\<lambda>bytes. bytes @ [CHR 0x0A]) scanned);
          printed = (if verb then scanned else [])
      in case CreateTemp e w of
           (None, w1) \<Rightarrow> ((printed, Inl ErrCreateTemp), w1)
         | (Some tmpfile, w1) \<Rightarrow>
             (case file_Write e w1 tmpfile allBytes of
                (False, w2) \<Rightarrow> ((printed, Inl ErrWriteTemp), w2)
              | (True, w2) \<Rightarrow> ((printed, Inr tmpfile), w2)))"

section \<open>Parsing the scheme of a URI\<close>

text \<open>
  \<^verbatim>\<open>newGitClient\<close> reads two things from \<^verbatim>\<open>url.Parse\<close>: whether it fails, and the scheme.
  The scheme is found as the Go library finds it (\<^verbatim>\<open>getScheme\<close>, then lower case). The
  checks the library makes on the authority, the path and the fragment are the functions
  \<open>authority_path_ok\<close> (of the scheme and what follows it, without the query) and
  \<open>fragment_ok\<close> of the environment.
\<close>

definition stringContainsCTLByte :: "string \<Rightarrow> bool" where
  "stringContainsCTLByte s = list_ex (\<lambda>b. b < CHR 0x20 \<or> b = CHR 0x7F) s"

definition is_letter :: "char \<Rightarrow> bool" where
  "is_letter c = ((CHR ''a'' \<le> c \<and> c \<le> CHR ''z'') \<or> (CHR ''A'' \<le> c \<and> c \<le> CHR ''Z''))"

definition is_scheme_punct :: "char \<Rightarrow> bool" where
  "is_scheme_punct c =
     ((CHR ''0'' \<le> c \<and> c \<le> CHR ''9'') \<or> c = CHR ''+'' \<or> c = CHR ''-'' \<or> c = CHR ''.'')"

text \<open>The loop of \<^verbatim>\<open>getScheme\<close>; \<open>acc\<close> is the part of \<open>raw\<close> already read. The result is
  the scheme and the rest, \<open>None\<close> for the error "missing protocol scheme".\<close>

fun getScheme_loop :: "string \<Rightarrow> string \<Rightarrow> string \<Rightarrow> (string \<times> string) option" where
  "getScheme_loop raw acc [] = Some ([], raw)"
| "getScheme_loop raw acc (c # cs) =
     (if is_letter c then getScheme_loop raw (acc @ [c]) cs
      else if is_scheme_punct c then
        (if acc = [] then Some ([], raw) else getScheme_loop raw (acc @ [c]) cs)
      else if c = CHR '':'' then
        (if acc = [] then None else Some (acc, cs))
      else Some ([], raw))"

definition getScheme :: "string \<Rightarrow> (string \<times> string) option" where
  "getScheme raw = getScheme_loop raw [] raw"

definition lower_byte :: "char \<Rightarrow> char" where
  "lower_byte c =
     (case map_of (zip ''ABCDEFGHIJKLMNOPQRSTUVWXYZ'' ''abcdefghijklmnopqrstuvwxyz'') c of
        Some l \<Rightarrow> l
      | None \<Rightarrow> c)"

definition ToLower :: "string \<Rightarrow> string" where
  "ToLower s = map lower_byte s"

text \<open>The function \<^verbatim>\<open>parse\<close> of the library, on the part before the fragment.\<close>

definition parse_scheme :: "'w env \<Rightarrow> string \<Rightarrow> string option" where
  "parse_scheme e u =
     (if stringContainsCTLByte u then None
      else if u = ''*'' then Some []
      else (case getScheme u of
              None \<Rightarrow> None
            | Some (scheme0, rest0) \<Rightarrow>
                let scheme = ToLower scheme0;
                    rest = takeWhile (\<lambda>c. c \<noteq> CHR ''?'') rest0
                in if \<not> HasPrefix rest ''/'' \<and> scheme \<noteq> [] then Some scheme
                   else if \<not> HasPrefix rest ''/''
                           \<and> CHR '':'' \<in> set (takeWhile (\<lambda>c. c \<noteq> CHR ''/'') rest) then None
                   else if authority_path_ok e scheme rest then Some scheme
                   else None))"

text \<open>\<^verbatim>\<open>url.Parse\<close>: the scheme of the URI, \<open>None\<close> when parsing fails.\<close>

definition url_Parse :: "'w env \<Rightarrow> string \<Rightarrow> string option" where
  "url_Parse e rawURL =
     (let u = takeWhile (\<lambda>c. c \<noteq> CHR ''#'') rawURL;
          frag = drop 1 (dropWhile (\<lambda>c. c \<noteq> CHR ''#'') rawURL)
      in case parse_scheme e u of
           None \<Rightarrow> None
         | Some scheme \<Rightarrow>
             if frag = [] then Some scheme
             else if fragment_ok e frag then Some scheme
             else None)"

section \<open>The git client\<close>

definition newGitClient :: "'w env \<Rightarrow> DockerBuildConfig \<Rightarrow> int \<Rightarrow> error + GitClient" where
  "newGitClient e config dep =
     (case url_Parse e (SourceRepo config) of
        None \<Rightarrow> Inl ErrParseRepoURI
      | Some scheme \<Rightarrow>
          if scheme \<noteq> ''https'' \<and> scheme \<noteq> ''git+https'' \<and> scheme \<noteq> ''https+git''
          then Inl (ErrUnsupportedScheme scheme)
          else
            let repo =
                  (if scheme = ''https'' then SourceRepo config
                   else if scheme = ''git+https''
                     then Replace1 (SourceRepo config) ''git+https'' ''https''
                   else Replace1 (SourceRepo config) ''https+git'' ''https'');
                refParts = Split repo (CHR ''@'')
            in if length refParts = 2 then
                 Inr \<lparr>sourceRepo = TrimSuffix repo (''@'' @ refParts ! 1),
                      sourceRef = Some (refParts ! 1),
                      sourceDigest = SourceDigest config,
                      checkoutInfo = \<lparr>RepoRoot = []\<rparr>,
                      logFiles = [], errFiles = [],
                      forceCheckout = ForceCheckout config,
                      verbose = Verbose config,
                      depth = dep\<rparr>
               else if length refParts = 1 then
                 Inr \<lparr>sourceRepo = repo,
                      sourceRef = None,
                      sourceDigest = SourceDigest config,
                      checkoutInfo = \<lparr>RepoRoot = []\<rparr>,
                      logFiles = [], errFiles = [],
                      forceCheckout = ForceCheckout config,
                      verbose = Verbose config,
                      depth = dep\<rparr>
               else Inl (ErrInvalidRepoFormat repo))"

text \<open>\<^verbatim>\<open>cmd.Output()\<close>: the command is started, and its standard output or its failure
  comes back.\<close>

definition run_Output :: "'w env \<Rightarrow> string list \<Rightarrow> 'w proc \<Rightarrow> string option \<times> 'w proc" where
  "run_Output e argv s =
     (case cmd_Output e (world s) argv of
        (r, w') \<Rightarrow> (r, \<lparr>world = w', invoked = invoked s @ [argv]\<rparr>))"

text \<open>The calls from \<^verbatim>\<open>StdoutPipe\<close> to \<^verbatim>\<open>Wait\<close> that \<^verbatim>\<open>cloneGitRepo\<close>,
  \<^verbatim>\<open>checkoutGitCommit\<close> and \<^verbatim>\<open>runDockerRun\<close> make in the same order. The command counts as
  started once \<^verbatim>\<open>Start\<close> is called.\<close>

definition run_with_pipes ::
  "'w env \<Rightarrow> bool \<Rightarrow> string list \<Rightarrow> 'w proc \<Rightarrow> run_result \<times> 'w proc" where
  "run_with_pipes e verb argv s =
     (case cmd_capture e (world s) verb argv of
        (r, w') \<Rightarrow>
          (r, \<lparr>world = w',
               invoked = (if r = StdoutPipeFailed \<or> r = StderrPipeFailed then invoked s
                          else invoked s @ [argv])\<rparr>))"

text \<open>The loop of \<^verbatim>\<open>verifyRefAndCommit\<close> over the check commands.\<close>

fun verify_cmds ::
  "'w env \<Rightarrow> string \<Rightarrow> string list list \<Rightarrow> 'w proc \<Rightarrow> (bool \<times> error option) \<times> 'w proc" where
  "verify_cmds e expected [] s = ((True, None), s)"
| "verify_cmds e expected (cmd # cmds) s =
     (case run_Output e cmd s of
        (None, s') \<Rightarrow> ((False, None), s')
      | (Some lastCommitIDBytes, s') \<Rightarrow>
          let lastCommitID = TrimSpace lastCommitIDBytes
          in if lastCommitID \<noteq> expected
             then ((False, Some (ErrGitCommitMismatch lastCommitID)), s')
             else verify_cmds e expected cmds s')"

definition verifyRefAndCommit ::
  "'w env \<Rightarrow> GitClient \<Rightarrow> 'w proc \<Rightarrow> (bool \<times> error option) \<times> 'w proc" where
  "verifyRefAndCommit e c s =
     (let checkCmds =
            [[''git'', ''rev-parse'', ''--verify'', ''HEAD'']] @
            (case sourceRef c of
               None \<Rightarrow> []
             | Some ref \<Rightarrow> [[''git'', ''show-ref'', ''--hash'', ''--verify'', ref]])
      in verify_cmds e (Value (sourceDigest c)) checkCmds s)"

definition cloneGitRepo ::
  "'w env \<Rightarrow> GitClient \<Rightarrow> 'w proc \<Rightarrow> error option \<times> GitClient \<times> 'w proc" where
  "cloneGitRepo e c s =
     (let argv = (if depth c > 0
                  then [''git'', ''clone'', ''--depth'', Sprintf_d (depth c), sourceRepo c]
                  else [''git'', ''clone'', sourceRepo c])
      in case run_with_pipes e (verbose c) argv s of
           (StdoutPipeFailed, s') \<Rightarrow> (Some ErrStdoutPipe, c, s')
         | (StderrPipeFailed, s') \<Rightarrow> (Some ErrStderrPipe, c, s')
         | (StartFailed, s') \<Rightarrow> (Some ErrStart, c, s')
         | (SaveLogsFailed, s') \<Rightarrow> (Some ErrSaveLogs, c, s')
         | (WaitFailed f0 f1, s') \<Rightarrow>
             (Some (ErrCommandFailed f0 f1),
              c\<lparr>logFiles := logFiles c @ [f0], errFiles := errFiles c @ [f1]\<rparr>, s')
         | (Completed f0 f1, s') \<Rightarrow>
             (None, c\<lparr>logFiles := logFiles c @ [f0], errFiles := errFiles c @ [f1]\<rparr>, s'))"

definition checkoutGitCommit ::
  "'w env \<Rightarrow> GitClient \<Rightarrow> 'w proc \<Rightarrow> error option \<times> GitClient \<times> 'w proc" where
  "checkoutGitCommit e c s =
     (case run_with_pipes e (verbose c) [''git'', ''checkout'', Value (sourceDigest c)] s of
        (StdoutPipeFailed, s') \<Rightarrow> (Some ErrStdoutPipe, c, s')
      | (StderrPipeFailed, s') \<Rightarrow> (Some ErrStderrPipe, c, s')
      | (StartFailed, s') \<Rightarrow> (Some ErrStart, c, s')
      | (SaveLogsFailed, s') \<Rightarrow> (Some ErrSaveLogs, c, s')
      | (WaitFailed f0 f1, s') \<Rightarrow>
          (Some (ErrCommandFailed f0 f1),
           c\<lparr>logFiles := logFiles c @ [f0], errFiles := errFiles c @ [f1]\<rparr>, s')
      | (Completed f0 f1, s') \<Rightarrow>
          (let c' = c\<lparr>logFiles := logFiles c @ [f0], errFiles := errFiles c @ [f1]\<rparr>
           in case verifyRefAndCommit e c' s' of
                ((ok, err), s'') \<Rightarrow>
                  if err \<noteq> None \<or> \<not> ok then (Some (ErrVerifyRefAndCommit err), c', s'')
                  else (None, c', s'')))"

definition fetchSourcesFromGitRepo ::
  "'w env \<Rightarrow> GitClient \<Rightarrow> 'w proc \<Rightarrow> error option \<times> GitClient \<times> 'w proc" where
  "fetchSourcesFromGitRepo e c s =
     (case MkdirTemp e (world s) of
        (None, w1) \<Rightarrow> (Some ErrCreateTempDir, c, s\<lparr>world := w1\<rparr>)
      | (Some targetDir, w1) \<Rightarrow>
     (case MkdirAll e w1 targetDir of
        (False, w2) \<Rightarrow> (Some (ErrCreateDirs targetDir), c, s\<lparr>world := w2\<rparr>)
      | (True, w2) \<Rightarrow>
     (case Chdir e w2 targetDir of
        (False, w3) \<Rightarrow> (Some (ErrChdir targetDir), c, s\<lparr>world := w3\<rparr>)
      | (True, w3) \<Rightarrow>
     (case cloneGitRepo e c (s\<lparr>world := w3\<rparr>) of
        (Some err, c1, s1) \<Rightarrow> (Some (ErrGitFetch err), c1, s1)
      | (None, c1, s1) \<Rightarrow>
     (let repoName = Base (sourceRepo c1)
      in case Chdir e (world s1) repoName of
        (False, w4) \<Rightarrow> (Some (ErrChdir repoName), c1, s1\<lparr>world := w4\<rparr>)
      | (True, w4) \<Rightarrow>
     (case Getwd e w4 of
        None \<Rightarrow> (Some ErrGetwd, c1, s1\<lparr>world := w4\<rparr>)
      | Some cwd \<Rightarrow>
     (case checkoutGitCommit e c1 (s1\<lparr>world := w4\<rparr>) of
        (Some err, c2, s2) \<Rightarrow> (Some (ErrGitCheckout err), c2, s2)
      | (None, c2, s2) \<Rightarrow>
          (None, c2\<lparr>checkoutInfo := (checkoutInfo c2)\<lparr>RepoRoot := cwd\<rparr>\<rparr>, s2))))))))"

definition verifyOrFetchRepo ::
  "'w env \<Rightarrow> GitClient \<Rightarrow> 'w proc \<Rightarrow> error option \<times> GitClient \<times> 'w proc" where
  "verifyOrFetchRepo e c s =
     (if Alg (sourceDigest c) \<noteq> ''sha1'' then (Some ErrNotSha1Digest, c, s)
      else case verifyRefAndCommit e c s of
        ((repoIsCheckedOut, err), s1) \<Rightarrow>
          if err \<noteq> None \<and> \<not> forceCheckout c then (err, c, s1)
          else if \<not> repoIsCheckedOut \<or> forceCheckout c then
            (case fetchSourcesFromGitRepo e c s1 of
               (Some ferr, c', s2) \<Rightarrow>
                 (Some (ErrFetchSources (sourceRepo c) (sourceDigest c) ferr), c', s2)
             | (None, c', s2) \<Rightarrow> (None, c', s2))
          else (None, c, s1))"

definition Fetch ::
  "'w env \<Rightarrow> GitClient \<Rightarrow> 'w proc \<Rightarrow> (error + RepoCheckoutInfo) \<times> GitClient \<times> 'w proc" where
  "Fetch e c s =
     (case verifyOrFetchRepo e c s of
        (Some err, c', s') \<Rightarrow> (Inl err, c', s')
      | (None, c', s') \<Rightarrow> (Inr (checkoutInfo c'), c', s'))"

section \<open>JSON documents and values decoded without a type\<close>

text \<open>
  A JSON document is its syntax tree; the members of an object are in the order of the text,
  and a name may occur more than once. A number is carried as its literal.
\<close>

datatype json =
    JNull
  | JBool bool
  | JNumber string
  | JString string
  | JArray "json list"
  | JObject "(string \<times> json) list"

text \<open>What \<^verbatim>\<open>json.Unmarshal\<close> stores in a Go \<^verbatim>\<open>interface{}\<close>. The entries of a map
  are kept with distinct keys in ascending order.\<close>

datatype gvalue =
    GNil
  | GBool bool
  | GFloat string
  | GString string
  | GSlice "gvalue list"
  | GMap "(string \<times> gvalue) list"

section \<open>Build definitions\<close>

text \<open>Modelled from the spec: the declaration of \<^verbatim>\<open>ContainerBasedExternalParameters\<close> is not
  part of the file; the spec lists a source descriptor, a builder image descriptor, the
  config path and the parsed config.\<close>

record ContainerBasedExternalParameters =
  Source :: ResourceDescriptor
  BuilderImage :: ResourceDescriptor
  ConfigPath :: string
  Config :: BuildConfig

text \<open>The field \<^verbatim>\<open>ExternalParameters\<close> of the library has the type \<^verbatim>\<open>interface{}\<close>: it holds
  nothing, a value decoded without a type, or the parameters of a container-based build.\<close>

datatype external_parameters =
    NoParameters
  | Untyped gvalue
  | ContainerBased ContainerBasedExternalParameters

record ProvenanceBuildDefinition =
  BuildType :: string
  ExternalParameters :: external_parameters
  ResolvedDependencies :: "ResourceDescriptor list option"

text \<open>Of the predicate the build definition is kept, and of the statement the predicate:
  the source reads no other part of them.\<close>

record ProvenancePredicate =
  BuildDefinition :: ProvenanceBuildDefinition

record ProvenanceStatementSLSA1 =
  Predicate :: ProvenancePredicate

record DockerBuild =
  config :: DockerBuildConfig
  buildConfig :: BuildConfig
  RepoInfo :: RepoCheckoutInfo

text \<open>The only \<^verbatim>\<open>Fetcher\<close> of the file is the git client.\<close>

record Builder =
  repoFetcher :: GitClient
  config_b :: DockerBuildConfig

text \<open>Modelled from the spec: \<^verbatim>\<open>Digest.ToMap\<close> is not part of the file; the spec shows the
  digest of a descriptor as the map from the algorithm to the value.\<close>

definition ToMap :: "Digest \<Rightarrow> DigestSet option" where
  "ToMap d = Some [(Alg d, Value d)]"

text \<open>Reading a Go map: \<open>map_get\<close> is the form with two results, \<open>map_index\<close> gives the empty
  string for a key that is not there.\<close>

definition map_get :: "DigestSet option \<Rightarrow> string \<Rightarrow> string option" where
  "map_get m k = (case m of None \<Rightarrow> None | Some kvs \<Rightarrow> map_of kvs k)"

definition map_index :: "DigestSet option \<Rightarrow> string \<Rightarrow> string" where
  "map_index m k = (case map_get m k of None \<Rightarrow> [] | Some v \<Rightarrow> v)"

definition sourceArtifact :: "DockerBuildConfig \<Rightarrow> ResourceDescriptor" where
  "sourceArtifact cfg = \<lparr>URI = SourceRepo cfg, Digest = ToMap (SourceDigest cfg)\<rparr>"

definition builderImage :: "'w env \<Rightarrow> DockerBuildConfig \<Rightarrow> ResourceDescriptor" where
  "builderImage e cfg =
     \<lparr>URI = ImageToString e (BuilderImage_cfg cfg),
      Digest = ToMap (Digest_img (BuilderImage_cfg cfg))\<rparr>"

definition CreateBuildDefinition :: "'w env \<Rightarrow> DockerBuild \<Rightarrow> ProvenanceBuildDefinition" where
  "CreateBuildDefinition e db =
     (let ep = \<lparr>Source = sourceArtifact (config db),
                BuilderImage = builderImage e (config db),
                ConfigPath = BuildConfigPath (config db),
                Config = buildConfig db\<rparr>
      in \<lparr>BuildType = ContainerBasedBuildType e,
          ExternalParameters = ContainerBased ep,
          ResolvedDependencies = Some [sourceArtifact (config db)]\<rparr>)"

definition NewBuilderWithGitFetcher :: "'w env \<Rightarrow> DockerBuildConfig \<Rightarrow> error + Builder" where
  "NewBuilderWithGitFetcher e cfg =
     (case newGitClient e cfg 0 of
        Inl err \<Rightarrow> Inl (ErrCreateBuilder err)
      | Inr gc \<Rightarrow> Inr \<lparr>repoFetcher = gc, config_b = cfg\<rparr>)"

section \<open>Checking and collecting the artifacts\<close>

text \<open>\<^verbatim>\<open>filepath.Glob\<close>: its only error is the malformed pattern, which depends on the pattern
  alone; the matches depend on the file system.\<close>

definition Glob :: "'w env \<Rightarrow> 'w \<Rightarrow> string \<Rightarrow> string list option" where
  "Glob e w pattern = (if bad_pattern e pattern then None else Some (glob_matches e w pattern))"

definition CheckExistingFiles :: "'w env \<Rightarrow> 'w \<Rightarrow> string \<Rightarrow> error option" where
  "CheckExistingFiles e w pattern =
     (case Glob e w pattern of
        None \<Rightarrow> Some (ErrMalformedPattern pattern)
      | Some matches \<Rightarrow>
          if length matches = 0 then None
          else Some (ErrExistingFiles pattern (length matches)))"

text \<open>\<^verbatim>\<open>toIntotoSubject\<close> never returns an error.\<close>

definition toIntotoSubject :: "'w env \<Rightarrow> string \<Rightarrow> string \<Rightarrow> Subject" where
  "toIntotoSubject e data filePath =
     \<lparr>Name = Base filePath,
      Digest_subj = [(''sha256'', EncodeToString (Sum256 e data))]\<rparr>"

text \<open>The loop of \<^verbatim>\<open>inspectAndWriteArtifacts\<close> over the matches.\<close>

fun inspect_loop ::
  "'w env \<Rightarrow> string \<Rightarrow> string \<Rightarrow> string list \<Rightarrow> Subject list \<Rightarrow> 'w proc
     \<Rightarrow> (error + Subject list) \<times> 'w proc" where
  "inspect_loop e outputFolder root [] subjects s = (Inr subjects, s)"
| "inspect_loop e outputFolder root (path # paths) subjects s =
     (case SafeReadFile e (world s) path of
        None \<Rightarrow> (Inl (ErrReadFile path), s)
      | Some data \<Rightarrow>
          let subjects' = subjects @ [toIntotoSubject e data path]
          in if outputFolder \<noteq> [] then
               (case (if root \<noteq> [] then filepath_Abs e (world s) path else Some path) of
                  None \<Rightarrow> (Inl ErrAbs, s)
                | Some path' \<Rightarrow>
                    (case filepath_Rel e root path' of
                       None \<Rightarrow> (Inl (ErrRel root path'), s)
                     | Some relPath \<Rightarrow>
                         (case write_output e (world s) relPath outputFolder data of
                            (CreateFailed, w') \<Rightarrow> (Inl ErrCreateOutputFile, s\<lparr>world := w'\<rparr>)
                          | (WriteFailed, w') \<Rightarrow> (Inl ErrWriteOutputFile, s\<lparr>world := w'\<rparr>)
                          | (Written, w') \<Rightarrow>
                              inspect_loop e outputFolder root paths subjects'
                                (s\<lparr>world := w'\<rparr>))))
             else inspect_loop e outputFolder root paths subjects' s)"

definition inspectAndWriteArtifacts ::
  "'w env \<Rightarrow> string \<Rightarrow> string \<Rightarrow> string \<Rightarrow> 'w proc \<Rightarrow> (error + Subject list) \<times> 'w proc" where
  "inspectAndWriteArtifacts e pattern outputFolder root s =
     (case Glob e (world s) pattern of
        None \<Rightarrow> (Inl (ErrMalformedPattern pattern), s)
      | Some matches \<Rightarrow>
          if length matches = 0 then (Inl (ErrNoFilesMatching pattern), s)
          else inspect_loop e outputFolder root matches [] s)"

section \<open>The builder\<close>

definition SetUpBuildState ::
  "'w env \<Rightarrow> Builder \<Rightarrow> 'w proc \<Rightarrow> (error + DockerBuild) \<times> GitClient \<times> 'w proc" where
  "SetUpBuildState e b s =
     (case Fetch e (repoFetcher b) s of
        (Inl err, c', s1) \<Rightarrow> (Inl (ErrVerifyOrFetch err), c', s1)
      | (Inr repoInfo, c', s1) \<Rightarrow>
          (case LoadBuildConfigFromFile e (world s1) (config_b b) of
             None \<Rightarrow> (Inl (ErrLoadConfig (BuildConfigPath (config_b b))), c', s1)
           | Some bc \<Rightarrow>
               (case CheckExistingFiles e (world s1) (ArtifactPath bc) of
                  Some err \<Rightarrow> (Inl err, c', s1)
                | None \<Rightarrow>
                    (Inr \<lparr>config = config_b b, buildConfig = bc, RepoInfo = repoInfo\<rparr>,
                     c', s1))))"

definition runDockerRun :: "'w env \<Rightarrow> DockerBuild \<Rightarrow> 'w proc \<Rightarrow> error option \<times> 'w proc" where
  "runDockerRun e db s =
     (case Getwd e (world s) of
        None \<Rightarrow> (Some ErrGetwd, s)
      | Some cwd \<Rightarrow>
          let defaultDockerRunFlags =
                [''--volume='' @ cwd @ '':/workspace'', ''--workdir=/workspace'', ''--rm''];
              buildDef = CreateBuildDefinition e db
          in (case ExternalParameters buildDef of
                ContainerBased containerEp \<Rightarrow>
                  let args = [''run''] @ defaultDockerRunFlags
                               @ [URI (BuilderImage containerEp)]
                               @ (case Command (buildConfig db) of None \<Rightarrow> [] | Some cs \<Rightarrow> cs)
                  in (case run_with_pipes e (Verbose (config db)) (''docker'' # args) s of
                        (StdoutPipeFailed, s') \<Rightarrow> (Some ErrStdoutPipe, s')
                      | (StderrPipeFailed, s') \<Rightarrow> (Some ErrStderrPipe, s')
                      | (StartFailed, s') \<Rightarrow> (Some ErrStart, s')
                      | (SaveLogsFailed, s') \<Rightarrow> (Some ErrSaveLogs, s')
                      | (WaitFailed f0 f1, s') \<Rightarrow> (Some (ErrCommandFailed f0 f1), s')
                      | (Completed f0 f1, s') \<Rightarrow> (None, s'))
              | _ \<Rightarrow> (Some ErrNotContainerBased, s)))"

definition BuildArtifacts ::
  "'w env \<Rightarrow> DockerBuild \<Rightarrow> string \<Rightarrow> 'w proc \<Rightarrow> (error + Subject list) \<times> 'w proc" where
  "BuildArtifacts e db outputFolder s =
     (case runDockerRun e db s of
        (Some err, s') \<Rightarrow> (Inl (ErrDockerRun err), s')
      | (None, s') \<Rightarrow>
          inspectAndWriteArtifacts e (ArtifactPath (buildConfig db)) outputFolder
            (RepoRoot (RepoInfo db)) s')"

section \<open>From a provenance statement to a build configuration\<close>

definition ToDockerBuildConfig ::
  "'w env \<Rightarrow> ProvenanceStatementSLSA1 \<Rightarrow> bool \<Rightarrow> error + DockerBuildConfig" where
  "ToDockerBuildConfig e p forceCheckout' =
     (case ExternalParameters (BuildDefinition (Predicate p)) of
        ContainerBased ep \<Rightarrow>
          (case validateDockerImage e (URI (BuilderImage ep)) of
             None \<Rightarrow> Inl ErrValidateImage
           | Some di \<Rightarrow>
               if Value (Digest_img di) \<noteq> map_index (Digest (BuilderImage ep)) (Alg (Digest_img di))
               then Inl ErrInvalidImageDigest
               else (case map_get (Digest (Source ep)) ''sha1'' of
                       None \<Rightarrow> Inl ErrMissingSha1Digest
                     | Some val \<Rightarrow>
                         Inr \<lparr>SourceRepo = URI (Source ep),
                              SourceDigest = \<lparr>Alg = ''sha1'', Value = val\<rparr>,
                              BuilderImage_cfg = di,
                              BuildConfigPath = ConfigPath ep,
                              ForceCheckout = forceCheckout',
                              Verbose = False\<rparr>))
      | _ \<Rightarrow> Inl ErrCastExternalParameters)"

section \<open>The JSON encoding of the Go library\<close>

text \<open>
  \<^verbatim>\<open>ParseProvenance\<close> calls \<^verbatim>\<open>json.Unmarshal\<close> and \<^verbatim>\<open>json.Marshal\<close>. They are modelled on
  syntax trees, after the documentation of the package \<^verbatim>\<open>encoding/json\<close>: a string is
  written and read as valid UTF-8, every byte that is not part of a valid encoding becoming
  the replacement character; the keys of a map are written in ascending order; a member of
  an object is decoded into the field with its name, or else into the first field whose name
  is equal to it when case is ignored, and is skipped when there is none; \<open>null\<close> leaves a
  string or a struct as it is and makes a map or a slice \<^verbatim>\<open>nil\<close>.
\<close>

subsection \<open>Valid UTF-8\<close>

definition continuation :: "char \<Rightarrow> bool" where
  "continuation c = (CHR 0x80 \<le> c \<and> c \<le> CHR 0xBF)"

text \<open>The length of the valid encoding at the head of a string, as \<^verbatim>\<open>utf8.DecodeRune\<close>
  finds it; \<open>0\<close> when the string is empty or its first byte starts no valid encoding.\<close>

fun rune_size :: "string \<Rightarrow> nat" where
  "rune_size [] = 0"
| "rune_size (b0 # bs) =
     (if b0 < CHR 0x80 then 1
      else if b0 < CHR 0xC2 then 0
      else if b0 \<le> CHR 0xDF then
        (case bs of
           b1 # _ \<Rightarrow> if continuation b1 then 2 else 0
         | _ \<Rightarrow> 0)
      else if b0 \<le> CHR 0xEF then
        (case bs of
           b1 # b2 # _ \<Rightarrow>
             if (if b0 = CHR 0xE0 then CHR 0xA0 else CHR 0x80) \<le> b1
                \<and> b1 \<le> (if b0 = CHR 0xED then CHR 0x9F else CHR 0xBF)
                \<and> continuation b2
             then 3 else 0
         | _ \<Rightarrow> 0)
      else if b0 \<le> CHR 0xF4 then
        (case bs of
           b1 # b2 # b3 # _ \<Rightarrow>
             if (if b0 = CHR 0xF0 then CHR 0x90 else CHR 0x80) \<le> b1
                \<and> b1 \<le> (if b0 = CHR 0xF4 then CHR 0x8F else CHR 0xBF)
                \<and> continuation b2 \<and> continuation b3
             then 4 else 0
         | _ \<Rightarrow> 0)
      else 0)"

text \<open>\<^verbatim>\<open>utf8.ValidString\<close>.\<close>

function valid_utf8 :: "string \<Rightarrow> bool" where
  "valid_utf8 [] = True"
| "valid_utf8 (b # bs) =
     (if rune_size (b # bs) = 0 then False
      else valid_utf8 (drop (rune_size (b # bs)) (b # bs)))"
  by pat_completeness auto
termination
  by (relation "measure length") (auto simp del: rune_size.simps)

text \<open>The string that is read back after a string is written: every byte that starts no
  valid encoding is replaced by the encoding of \<open>U+FFFD\<close>.\<close>

function coerce_utf8 :: "string \<Rightarrow> string" where
  "coerce_utf8 [] = []"
| "coerce_utf8 (b # bs) =
     (if rune_size (b # bs) = 0 then [CHR 0xEF, CHR 0xBF, CHR 0xBD] @ coerce_utf8 bs
      else take (rune_size (b # bs)) (b # bs)
             @ coerce_utf8 (drop (rune_size (b # bs)) (b # bs)))"
  by pat_completeness auto
termination
  by (relation "measure length") (auto simp del: rune_size.simps)

declare valid_utf8.simps [simp del]
declare coerce_utf8.simps [simp del]

subsection \<open>Go maps with string keys\<close>

text \<open>Storing under a key, in a list with distinct keys in ascending order.\<close>

fun map_put :: "string \<Rightarrow> 'v \<Rightarrow> (string \<times> 'v) list \<Rightarrow> (string \<times> 'v) list" where
  "map_put k v [] = [(k, v)]"
| "map_put k v ((k', v') # m) =
     (if k < k' then (k, v) # (k', v') # m
      else if k = k' then (k, v) # m
      else (k', v') # map_put k v m)"

text \<open>Storing the members of an object one after the other: of two members with the same
  name the later one stays.\<close>

definition put_all :: "(string \<times> 'v) list \<Rightarrow> (string \<times> 'v) list \<Rightarrow> (string \<times> 'v) list" where
  "put_all kvs m = fold (\<lambda>(k, v) m. map_put k v m) kvs m"

subsection \<open>Values without a type\<close>

text \<open>\<^verbatim>\<open>json.Unmarshal\<close> into an \<^verbatim>\<open>interface{}\<close>.\<close>

fun to_generic :: "json \<Rightarrow> gvalue" where
  "to_generic JNull = GNil"
| "to_generic (JBool b) = GBool b"
| "to_generic (JNumber n) = GFloat n"
| "to_generic (JString s) = GString (coerce_utf8 s)"
| "to_generic (JArray xs) = GSlice (map to_generic xs)"
| "to_generic (JObject kvs) =
     GMap (put_all (map (\<lambda>(k, v). (coerce_utf8 k, to_generic v)) kvs) [])"

text \<open>\<^verbatim>\<open>json.Marshal\<close> of such a value.\<close>

fun marshal_generic :: "gvalue \<Rightarrow> json" where
  "marshal_generic GNil = JNull"
| "marshal_generic (GBool b) = JBool b"
| "marshal_generic (GFloat n) = JNumber n"
| "marshal_generic (GString s) = JString (coerce_utf8 s)"
| "marshal_generic (GSlice xs) = JArray (map marshal_generic xs)"
| "marshal_generic (GMap kvs) =
     JObject (map (\<lambda>(k, v). (coerce_utf8 k, marshal_generic v)) (sort_key fst kvs))"

subsection \<open>Selecting the field of a member\<close>

definition upper_byte :: "char \<Rightarrow> char" where
  "upper_byte c =
     (case map_of (zip ''abcdefghijklmnopqrstuvwxyz'' ''ABCDEFGHIJKLMNOPQRSTUVWXYZ'') c of
        Some u \<Rightarrow> u
      | None \<Rightarrow> c)"

text \<open>The folded form of a name: ASCII letters in upper case, and the two characters
  outside ASCII that are equal to an ASCII letter when case is ignored, the long s
  (\<open>U+017F\<close>) and the Kelvin sign (\<open>U+212A\<close>), as that letter. The names of the fields are
  ASCII, so no other character can take part in a match.\<close>

fun foldName :: "string \<Rightarrow> string" where
  "foldName [] = []"
| "foldName (c # cs) =
     (if c = CHR 0xC5 \<and> HasPrefix cs [CHR 0xBF] then CHR ''S'' # foldName (drop 1 cs)
      else if c = CHR 0xE2 \<and> HasPrefix cs [CHR 0x84, CHR 0xAA] then CHR ''K'' # foldName (drop 2 cs)
      else upper_byte c # foldName cs)"

fun index_of :: "'a list \<Rightarrow> 'a \<Rightarrow> nat option" where
  "index_of [] x = None"
| "index_of (y # ys) x = (if x = y then Some 0 else map_option Suc (index_of ys x))"

text \<open>The index of the field for a member name: the field with exactly this name, or
  else the first field with the same folded name.\<close>

definition find_field :: "string list \<Rightarrow> string \<Rightarrow> nat option" where
  "find_field names key =
     (case index_of names key of
        Some i \<Rightarrow> Some i
      | None \<Rightarrow> index_of (map foldName names) (foldName key))"

text \<open>Decoding the members of an object into a struct, one after the other; \<open>f i v cur\<close>
  decodes the value \<open>v\<close> into field \<open>i\<close> of \<open>cur\<close>. \<open>None\<close> is the error of a value that
  does not fit the type of its field.\<close>

fun decode_members ::
  "(nat \<Rightarrow> json \<Rightarrow> 's \<Rightarrow> 's option) \<Rightarrow> string list \<Rightarrow> (string \<times> json) list \<Rightarrow> 's \<Rightarrow> 's option" where
  "decode_members f names [] cur = Some cur"
| "decode_members f names ((k, v) # kvs) cur =
     (case find_field names (coerce_utf8 k) of
        None \<Rightarrow> decode_members f names kvs cur
      | Some i \<Rightarrow>
          (case f i v cur of
             None \<Rightarrow> None
           | Some cur' \<Rightarrow> decode_members f names kvs cur'))"

subsection \<open>Decoding into the types of the build definition\<close>

definition decode_string :: "json \<Rightarrow> string \<Rightarrow> string option" where
  "decode_string j cur =
     (case j of JNull \<Rightarrow> Some cur | JString s \<Rightarrow> Some (coerce_utf8 s) | _ \<Rightarrow> None)"

text \<open>Into a \<^verbatim>\<open>map[string]string\<close>: the entries that are there stay, unless a member has
  their key.\<close>

definition decode_string_map :: "json \<Rightarrow> DigestSet option \<Rightarrow> DigestSet option option" where
  "decode_string_map j cur =
     (case j of
        JNull \<Rightarrow> Some None
      | JObject kvs \<Rightarrow>
          (case those (map (\<lambda>(k, v). map_option (Pair (coerce_utf8 k)) (decode_string v [])) kvs) of
             None \<Rightarrow> None
           | Some kvs' \<Rightarrow> Some (Some (put_all kvs' (case cur of None \<Rightarrow> [] | Some m \<Rightarrow> m))))
      | _ \<Rightarrow> None)"

text \<open>Into a \<^verbatim>\<open>[]string\<close>. (The library decodes an element into the element that the
  slice has at this index, which shows only when a slice is decoded twice.)\<close>

definition decode_string_slice :: "json \<Rightarrow> string list option \<Rightarrow> string list option option" where
  "decode_string_slice j cur =
     (case j of
        JNull \<Rightarrow> Some None
      | JArray xs \<Rightarrow> map_option Some (those (map (\<lambda>x. decode_string x []) xs))
      | _ \<Rightarrow> None)"

text \<open>Into a resource descriptor. A member for a field of the descriptor that the model
  does not have is skipped.\<close>

definition decode_ResourceDescriptor :: "json \<Rightarrow> ResourceDescriptor \<Rightarrow> ResourceDescriptor option" where
  "decode_ResourceDescriptor j cur =
     (case j of
        JNull \<Rightarrow> Some cur
      | JObject kvs \<Rightarrow>
          decode_members
            (\<lambda>i v rd. if i = 0 then map_option (\<lambda>u. rd\<lparr>URI := u\<rparr>) (decode_string v (URI rd))
                       else map_option (\<lambda>d. rd\<lparr>Digest := d\<rparr>) (decode_string_map v (Digest rd)))
            [''uri'', ''digest''] kvs cur
      | _ \<Rightarrow> None)"

text \<open>Modelled from the spec: the names of the members of the build configuration and of the
  external parameters come with the declarations of \<^verbatim>\<open>BuildConfig\<close> and
  \<^verbatim>\<open>ContainerBasedExternalParameters\<close>, which are not part of the file; they are the names
  the spec gives.\<close>

definition decode_BuildConfig :: "json \<Rightarrow> BuildConfig \<Rightarrow> BuildConfig option" where
  "decode_BuildConfig j cur =
     (case j of
        JNull \<Rightarrow> Some cur
      | JObject kvs \<Rightarrow>
          decode_members
            (\<lambda>i v bc. if i = 0
                       then map_option (\<lambda>c. bc\<lparr>Command := c\<rparr>) (decode_string_slice v (Command bc))
                       else map_option (\<lambda>a. bc\<lparr>ArtifactPath := a\<rparr>)
                              (decode_string v (ArtifactPath bc)))
            [''command'', ''artifactPath''] kvs cur
      | _ \<Rightarrow> None)"

definition decode_ExternalParameters ::
  "json \<Rightarrow> ContainerBasedExternalParameters \<Rightarrow> ContainerBasedExternalParameters option" where
  "decode_ExternalParameters j cur =
     (case j of
        JNull \<Rightarrow> Some cur
      | JObject kvs \<Rightarrow>
          decode_members
            (\<lambda>i v ep.
               if i = 0 then map_option (\<lambda>x. ep\<lparr>Source := x\<rparr>)
                                (decode_ResourceDescriptor v (Source ep))
               else if i = 1 then map_option (\<lambda>x. ep\<lparr>BuilderImage := x\<rparr>)
                                (decode_ResourceDescriptor v (BuilderImage ep))
               else if i = 2 then map_option (\<lambda>x. ep\<lparr>ConfigPath := x\<rparr>)
                                (decode_string v (ConfigPath ep))
               else map_option (\<lambda>x. ep\<lparr>Config := x\<rparr>) (decode_BuildConfig v (Config ep)))
            [''source'', ''builderImage'', ''configPath'', ''config''] kvs cur
      | _ \<Rightarrow> None)"

definition zero_ResourceDescriptor :: ResourceDescriptor where
  "zero_ResourceDescriptor = \<lparr>URI = [], Digest = None\<rparr>"

definition zero_ExternalParameters :: ContainerBasedExternalParameters where
  "zero_ExternalParameters =
     \<lparr>Source = zero_ResourceDescriptor, BuilderImage = zero_ResourceDescriptor,
      ConfigPath = [], Config = \<lparr>Command = None, ArtifactPath = []\<rparr>\<rparr>"

definition zero_Statement :: ProvenanceStatementSLSA1 where
  "zero_Statement =
     \<lparr>Predicate = \<lparr>BuildDefinition =
        \<lparr>BuildType = [], ExternalParameters = NoParameters, ResolvedDependencies = None\<rparr>\<rparr>\<rparr>"

definition decode_descriptors ::
  "json \<Rightarrow> ResourceDescriptor list option \<Rightarrow> ResourceDescriptor list option option" where
  "decode_descriptors j cur =
     (case j of
        JNull \<Rightarrow> Some None
      | JArray xs \<Rightarrow>
          map_option Some
            (those (map (\<lambda>x. decode_ResourceDescriptor x zero_ResourceDescriptor) xs))
      | _ \<Rightarrow> None)"

text \<open>Into the field of type \<^verbatim>\<open>interface{}\<close>.\<close>

definition decode_interface :: "json \<Rightarrow> external_parameters" where
  "decode_interface j = (case j of JNull \<Rightarrow> NoParameters | _ \<Rightarrow> Untyped (to_generic j))"

definition decode_BuildDefinition ::
  "json \<Rightarrow> ProvenanceBuildDefinition \<Rightarrow> ProvenanceBuildDefinition option" where
  "decode_BuildDefinition j cur =
     (case j of
        JNull \<Rightarrow> Some cur
      | JObject kvs \<Rightarrow>
          decode_members
            (\<lambda>i v bd.
               if i = 0 then map_option (\<lambda>x. bd\<lparr>BuildType := x\<rparr>) (decode_string v (BuildType bd))
               else if i = 1 then Some (bd\<lparr>ExternalParameters := decode_interface v\<rparr>)
               else map_option (\<lambda>x. bd\<lparr>ResolvedDependencies := x\<rparr>)
                      (decode_descriptors v (ResolvedDependencies bd)))
            [''buildType'', ''externalParameters'', ''resolvedDependencies''] kvs cur
      | _ \<Rightarrow> None)"

definition decode_Predicate :: "json \<Rightarrow> ProvenancePredicate \<Rightarrow> ProvenancePredicate option" where
  "decode_Predicate j cur =
     (case j of
        JNull \<Rightarrow> Some cur
      | JObject kvs \<Rightarrow>
          decode_members
            (\<lambda>i v p. map_option (\<lambda>x. p\<lparr>BuildDefinition := x\<rparr>)
                        (decode_BuildDefinition v (BuildDefinition p)))
            [''buildDefinition''] kvs cur
      | _ \<Rightarrow> None)"

text \<open>\<^verbatim>\<open>json.Unmarshal\<close> into a statement. Of the members of a statement and of a predicate
  the model reads \<open>predicate\<close> and \<open>buildDefinition\<close>.\<close>

definition decode_Statement :: "json \<Rightarrow> ProvenanceStatementSLSA1 \<Rightarrow> ProvenanceStatementSLSA1 option" where
  "decode_Statement j cur =
     (case j of
        JNull \<Rightarrow> Some cur
      | JObject kvs \<Rightarrow>
          decode_members
            (\<lambda>i v st. map_option (\<lambda>x. st\<lparr>Predicate := x\<rparr>) (decode_Predicate v (Predicate st)))
            [''predicate''] kvs cur
      | _ \<Rightarrow> None)"

subsection \<open>Encoding the types of the build definition\<close>

definition marshal_string :: "string \<Rightarrow> json" where
  "marshal_string s = JString (coerce_utf8 s)"

definition marshal_string_map :: "DigestSet option \<Rightarrow> json" where
  "marshal_string_map m =
     (case m of
        None \<Rightarrow> JNull
      | Some kvs \<Rightarrow> JObject (map (\<lambda>(k, v). (coerce_utf8 k, marshal_string v)) (sort_key fst kvs)))"

definition marshal_string_slice :: "string list option \<Rightarrow> json" where
  "marshal_string_slice xs =
     (case xs of None \<Rightarrow> JNull | Some ys \<Rightarrow> JArray (map marshal_string ys))"

text \<open>The members \<open>uri\<close> and \<open>digest\<close> of a descriptor are left out when empty.\<close>

definition marshal_ResourceDescriptor :: "ResourceDescriptor \<Rightarrow> json" where
  "marshal_ResourceDescriptor rd =
     JObject
       ((if URI rd = [] then [] else [(''uri'', marshal_string (URI rd))])
        @ (if Digest rd = None \<or> Digest rd = Some [] then []
           else [(''digest'', marshal_string_map (Digest rd))]))"

definition marshal_BuildConfig :: "BuildConfig \<Rightarrow> json" where
  "marshal_BuildConfig bc =
     JObject [(''command'', marshal_string_slice (Command bc)),
              (''artifactPath'', marshal_string (ArtifactPath bc))]"

definition marshal_ExternalParameters :: "ContainerBasedExternalParameters \<Rightarrow> json" where
  "marshal_ExternalParameters ep =
     JObject [(''source'', marshal_ResourceDescriptor (Source ep)),
              (''builderImage'', marshal_ResourceDescriptor (BuilderImage ep)),
              (''configPath'', marshal_string (ConfigPath ep)),
              (''config'', marshal_BuildConfig (Config ep))]"

definition marshal_interface :: "external_parameters \<Rightarrow> json" where
  "marshal_interface x =
     (case x of
        NoParameters \<Rightarrow> JNull
      | Untyped g \<Rightarrow> marshal_generic g
      | ContainerBased ep \<Rightarrow> marshal_ExternalParameters ep)"

definition marshal_BuildDefinition :: "ProvenanceBuildDefinition \<Rightarrow> json" where
  "marshal_BuildDefinition bd =
     JObject
       ([(''buildType'', marshal_string (BuildType bd)),
         (''externalParameters'', marshal_interface (ExternalParameters bd))]
        @ (case ResolvedDependencies bd of
             None \<Rightarrow> []
           | Some ds \<Rightarrow>
               if ds = [] then []
               else [(''resolvedDependencies'', JArray (map marshal_ResourceDescriptor ds))]))"

definition marshal_Statement :: "ProvenanceStatementSLSA1 \<Rightarrow> json" where
  "marshal_Statement st =
     JObject [(''predicate'',
               JObject [(''buildDefinition'',
                         marshal_BuildDefinition (BuildDefinition (Predicate st)))])]"

section \<open>Parsing a provenance statement\<close>

text \<open>
  The bytes given to \<^verbatim>\<open>ParseProvenance\<close> are \<open>None\<close> when they are no JSON text, and the
  syntax tree of the text otherwise. \<^verbatim>\<open>json.Marshal\<close> of the value stored in the field of
  the external parameters cannot fail, so the second error of the source has no branch.
\<close>

definition ParseProvenance :: "json option \<Rightarrow> error + ProvenanceStatementSLSA1" where
  "ParseProvenance bytes =
     (case bytes of
        None \<Rightarrow> Inl ErrUnmarshalProvenance
      | Some doc \<Rightarrow>
          (case decode_Statement doc zero_Statement of
             None \<Rightarrow> Inl ErrUnmarshalProvenance
           | Some statement \<Rightarrow>
               let b = marshal_interface
                         (ExternalParameters (BuildDefinition (Predicate statement)))
               in (case decode_ExternalParameters b zero_ExternalParameters of
                     None \<Rightarrow> Inl ErrUnmarshalBuildConfig
                   | Some ep \<Rightarrow>
                       Inr (statement\<lparr>Predicate := (Predicate statement)
                              \<lparr>BuildDefinition := (BuildDefinition (Predicate statement))
                                 \<lparr>ExternalParameters := ContainerBased ep\<rparr>\<rparr>\<rparr>))))"

subsection \<open>Parameters whose strings are valid UTF-8\<close>

definition valid_descriptor :: "ResourceDescriptor \<Rightarrow> bool" where
  "valid_descriptor rd =
     (valid_utf8 (URI rd)
      \<and> list_all (\<lambda>(k, v). valid_utf8 k \<and> valid_utf8 v)
            (case Digest rd of None \<Rightarrow> [] | Some kvs \<Rightarrow> kvs))"

definition valid_parameters :: "ContainerBasedExternalParameters \<Rightarrow> bool" where
  "valid_parameters ep =
     (valid_descriptor (Source ep) \<and> valid_descriptor (BuilderImage ep)
      \<and> valid_utf8 (ConfigPath ep)
      \<and> list_all valid_utf8 (case Command (Config ep) of None \<Rightarrow> [] | Some cs \<Rightarrow> cs)
      \<and> valid_utf8 (ArtifactPath (Config ep)))"

section \<open>The commands started between two states\<close>

text \<open>\<open>only_git_started s s'\<close>: the commands of \<open>s'\<close> are those of \<open>s\<close> followed by commands
  whose program is \<open>git\<close>; in particular no container was started in between.\<close>

definition is_git :: "string list \<Rightarrow> bool" where
  "is_git argv = (take 1 argv = [''git''])"

definition only_git_started :: "'w proc \<Rightarrow> 'w proc \<Rightarrow> bool" where
  "only_git_started s s' =
     (take (length (invoked s)) (invoked s') = invoked s
      \<and> list_all is_git (drop (length (invoked s)) (invoked s')))"

text \<open>The errors of \<open>inspect_loop\<close>: a matched file that cannot be read, or cannot be copied
  to the output folder.\<close>

definition is_read_or_copy_error :: "error \<Rightarrow> bool" where
  "is_read_or_copy_error err =
     (case err of
        ErrReadFile p \<Rightarrow> True
      | ErrAbs \<Rightarrow> True
      | ErrRel r p \<Rightarrow> True
      | ErrCreateOutputFile \<Rightarrow> True
      | ErrWriteOutputFile \<Rightarrow> True
      | _ \<Rightarrow> False)"

text \<open>The subject of a matched file: its base name, and the digest of bytes read from it.\<close>

definition subject_of :: "'w env \<Rightarrow> string \<Rightarrow> Subject \<Rightarrow> bool" where
  "subject_of e path sub =
     (Name sub = Base path
      \<and> (\<exists>w data. SafeReadFile e w path = Some data
            \<and> Digest_subj sub = [(''sha256'', EncodeToString (Sum256 e data))]))"

text \<open>
  One turn of the loop of \<open>inspect_loop\<close>, seen from outside. \<open>copied e out root w path data w'\<close>:
  in the world \<open>w\<close> the file at \<open>path\<close> is read as \<open>data\<close> and, when there is an output
  folder, its absolute and relative paths are found and it is written there, which gives
  the world \<open>w'\<close>; with no output folder the world stays. \<open>copy_fails e out root w path err w'\<close>:
  the turn ends the loop with the error \<open>err\<close> in the world \<open>w'\<close>.
\<close>

definition copied ::
  "'w env \<Rightarrow> string \<Rightarrow> string \<Rightarrow> 'w \<Rightarrow> string \<Rightarrow> string \<Rightarrow> 'w \<Rightarrow> bool" where
  "copied e out root w path data w' =
     (SafeReadFile e w path = Some data
      \<and> (if out = [] then w' = w
         else (case (if root \<noteq> [] then filepath_Abs e w path else Some path) of
                 None \<Rightarrow> False
               | Some path' \<Rightarrow>
                   (case filepath_Rel e root path' of
                      None \<Rightarrow> False
                    | Some relPath \<Rightarrow> write_output e w relPath out data = (Written, w')))))"

definition copy_fails ::
  "'w env \<Rightarrow> string \<Rightarrow> string \<Rightarrow> 'w \<Rightarrow> string \<Rightarrow> error \<Rightarrow> 'w \<Rightarrow> bool" where
  "copy_fails e out root w path err w' =
     (case SafeReadFile e w path of
        None \<Rightarrow> err = ErrReadFile path \<and> w' = w
      | Some data \<Rightarrow>
          out \<noteq> []
          \<and> (case (if root \<noteq> [] then filepath_Abs e w path else Some path) of
                None \<Rightarrow> err = ErrAbs \<and> w' = w
              | Some path' \<Rightarrow>
                  (case filepath_Rel e root path' of
                     None \<Rightarrow> err = ErrRel root path' \<and> w' = w
                   | Some relPath \<Rightarrow>
                       (case write_output e w relPath out data of
                          (CreateFailed, w2) \<Rightarrow> err = ErrCreateOutputFile \<and> w' = w2
                        | (WriteFailed, w2) \<Rightarrow> err = ErrWriteOutputFile \<and> w' = w2
                        | (Written, w2) \<Rightarrow> False))))"

section \<open>An example environment\<close>

text \<open>
  A working directory checked out at commit \<open>deadbeef\<close>, in which every command succeeds, the
  build writes \<open>dist/app.tar.gz\<close>, and the pattern \<open>[\<close> is the malformed one. The world
  is the number of builds that have run. The digest function is a stand-in with two bytes.
\<close>

definition demo_env :: "nat env" where
  "demo_env =
     \<lparr>cmd_Output = (\<lambda>w argv. (Some ''deadbeef\<newline>'', w)),
      cmd_capture = (\<lambda>w verb argv.
        (Completed ''/tmp/log-1.txt'' ''/tmp/log-2.txt'',
         if take 1 argv = [''docker''] then Suc w else w)),
      MkdirTemp = (\<lambda>w. (Some ''/tmp/release-1'', w)),
      MkdirAll = (\<lambda>w d. (True, w)),
      Chdir = (\<lambda>w d. (True, w)),
      Getwd = (\<lambda>w. Some ''/tmp/release-1/repo''),
      bad_pattern = (\<lambda>p. p = ''[''),
      glob_matches = (\<lambda>w p. if w = 0 then [] else [''dist/app.tar.gz'']),
      LoadBuildConfigFromFile = (\<lambda>w cfg.
        Some \<lparr>Command = Some [''make'', ''release''], ArtifactPath = ''dist/*.tar.gz''\<rparr>),
      SafeReadFile = (\<lambda>w p. Some ''data''),
      filepath_Abs = (\<lambda>w p. Some (''/tmp/release-1/repo/'' @ p)),
      filepath_Rel = (\<lambda>root p. Some (drop (Suc (length root)) p)),
      write_output = (\<lambda>w rel folder data. (Written, w)),
      authority_path_ok = (\<lambda>scheme rest. True),
      fragment_ok = (\<lambda>frag. True),
      Sum256 = (\<lambda>data. [CHR 0x01, CHR 0xAB]),
      ImageToString = (\<lambda>i. ImagePath i @ ''@'' @ Alg (Digest_img i) @ '':'' @ Value (Digest_img i)),
      validateDockerImage = (\<lambda>u.
        if u = ''example.com/img@sha256:abcd''
        then Some \<lparr>ImagePath = ''example.com/img'', ImageRef = [],
                   Digest_img = \<lparr>Alg = ''sha256'', Value = ''abcd''\<rparr>\<rparr>
        else None),
      ContainerBasedBuildType = ''https://slsa.dev/container-based-build/v0.1?draft'',
      CreateTemp = (\<lambda>w. (Some ''/tmp/log-1.txt'', w)),
      file_Write = (\<lambda>w name bytes. (True, w))\<rparr>"

definition demo_config :: DockerBuildConfig where
  "demo_config =
     \<lparr>SourceRepo = ''git+https://example.com/repo'',
      SourceDigest = \<lparr>Alg = ''sha1'', Value = ''deadbeef''\<rparr>,
      BuilderImage_cfg = \<lparr>ImagePath = ''example.com/img'', ImageRef = [],
                          Digest_img = \<lparr>Alg = ''sha256'', Value = ''abcd''\<rparr>\<rparr>,
      BuildConfigPath = ''build.toml'',
      ForceCheckout = False,
      Verbose = False\<rparr>"


definition demo_client :: GitClient where
  "demo_client =
     \<lparr>sourceRepo = ''https://example.com/repo'', sourceRef = None,
      sourceDigest = \<lparr>Alg = ''sha1'', Value = ''deadbeef''\<rparr>,
      checkoutInfo = \<lparr>RepoRoot = []\<rparr>, logFiles = [], errFiles = [],
      forceCheckout = False, verbose = False, depth = 0\<rparr>"

definition demo_start :: "nat proc" where
  "demo_start = \<lparr>world = 0, invoked = []\<rparr>"

definition demo_builder :: Builder where
  "demo_builder = \<lparr>repoFetcher = demo_client, config_b = demo_config\<rparr>"

definition demo_build :: DockerBuild where
  "demo_build =
     \<lparr>config = demo_config,
      buildConfig = \<lparr>Command = Some [''make'', ''release''], ArtifactPath = ''dist/*.tar.gz''\<rparr>,
      RepoInfo = \<lparr>RepoRoot = []\<rparr>\<rparr>"

text \<open>Variants: an artifact that is there before the build; matched files that cannot be
  read; a build configuration with the malformed pattern.\<close>

definition stale_env :: "nat env" where
  "stale_env = demo_env\<lparr>glob_matches := (\<lambda>w p. [''dist/app.tar.gz''])\<rparr>"

definition unreadable_env :: "nat env" where
  "unreadable_env = demo_env\<lparr>SafeReadFile := (\<lambda>w p. None)\<rparr>"

definition bad_pattern_env :: "nat env" where
  "bad_pattern_env =
     demo_env\<lparr>LoadBuildConfigFromFile := (\<lambda>w cfg.
       Some \<lparr>Command = Some [''make'', ''release''], ArtifactPath = ''[''\<rparr>)\<rparr>"

text \<open>The example build with a config path that is not ASCII (\<open>caf\<close> and the two bytes of
  \<open>U+00E9\<close>), and with a config path of one byte that is not valid UTF-8.\<close>

definition accent_build :: DockerBuild where
  "accent_build =
     demo_build\<lparr>config := demo_config\<lparr>BuildConfigPath := ''caf'' @ [CHR 0xC3, CHR 0xA9]\<rparr>\<rparr>"

definition invalid_path_build :: DockerBuild where
  "invalid_path_build = demo_build\<lparr>config := demo_config\<lparr>BuildConfigPath := [CHR 0xFF]\<rparr>\<rparr>"

definition demo_parameters :: ContainerBasedExternalParameters where
  "demo_parameters =
     \<lparr>Source = \<lparr>URI = ''git+https://example.com/repo'',
                 Digest = Some [(''sha1'', ''deadbeef'')]\<rparr>,
      BuilderImage = \<lparr>URI = ''example.com/img@sha256:abcd'',
                       Digest = Some [(''sha256'', ''abcd'')]\<rparr>,
      ConfigPath = ''build.toml'',
      Config = \<lparr>Command = Some [''make'', ''release''], ArtifactPath = ''dist/*.tar.gz''\<rparr>\<rparr>"

text \<open>A stream whose first line has \<open>65536\<close> bytes, followed by a second line.\<close>

definition long_line_stream :: string where
  "long_line_stream = replicate 65536 (CHR ''a'') @ [CHR 0x0A] @ ''tail'' @ [CHR 0x0A]"

text \<open>A build that writes two files, \<open>dist/a.tar.gz\<close> with the byte \<open>a\<close> and \<open>dist/b.tar.gz\<close>
  with the byte \<open>b\<close>; every copy to the output folder gives the next world, and the digest
  function is the identity as a stand-in. In the second variant the copy fails in the
  world \<open>2\<close>, which is the world of the second file.\<close>

definition two_files_env :: "nat env" where
  "two_files_env =
     demo_env\<lparr>glob_matches := (\<lambda>w p. if w = 0 then [] else [''dist/a.tar.gz'', ''dist/b.tar.gz'']),
       SafeReadFile := (\<lambda>w p. Some (take 1 (drop 5 p))),
       Sum256 := (\<lambda>data. data),
       write_output := (\<lambda>w rel folder data. (Written, Suc w))\<rparr>"

definition second_copy_fails_env :: "nat env" where
  "second_copy_fails_env =
     two_files_env\<lparr>write_output := (\<lambda>w rel folder data.
       if w = 2 then (WriteFailed, w) else (Written, Suc w))\<rparr>"

section \<open>Fetching the sources\<close>

lemma TrimSpace_demo: "TrimSpace ''deadbeef\<newline>'' = ''deadbeef''"
  by code_simp

lemma verify_cmds_error:
  "verify_cmds e v cmds s = ((ok, Some err), s') \<Longrightarrow> \<exists>i. err = ErrGitCommitMismatch i \<and> i \<noteq> v"
  by (induction cmds arbitrary: s) (auto simp: Let_def split: prod.splits option.splits if_splits)

lemma verifyRefAndCommit_error:
  "verifyRefAndCommit e c s = ((ok, Some err), s')
     \<Longrightarrow> \<exists>i. err = ErrGitCommitMismatch i \<and> i \<noteq> Value (sourceDigest c)"
  unfolding verifyRefAndCommit_def Let_def by (rule verify_cmds_error)

lemma newGitClient_fields:
  "newGitClient e cfg dep = Inr c \<Longrightarrow>
     checkoutInfo c = \<lparr>RepoRoot = []\<rparr> \<and> sourceDigest c = SourceDigest cfg
     \<and> forceCheckout c = ForceCheckout cfg \<and> verbose c = Verbose cfg \<and> depth c = dep
     \<and> logFiles c = [] \<and> errFiles c = []"
  by (auto simp: newGitClient_def Let_def split: option.splits if_splits)

text \<open>
  Claim C5. When the algorithm of the source digest is not \<open>sha1\<close>, \<open>Fetch\<close> fails with
  the error of the first step, and neither the client nor the process state changes: no
  command is started, nothing is verified and nothing is cloned. The error of the first step
  is returned in no other case, so \<open>Fetch\<close> goes past the first step exactly when the
  algorithm is \<open>sha1\<close>.
\<close>

theorem C5_fetch_requires_sha1:
  "(Alg (sourceDigest c) \<noteq> ''sha1'' \<longrightarrow> Fetch e c s = (Inl ErrNotSha1Digest, c, s))
   \<and> ((fst (Fetch e c s) = Inl ErrNotSha1Digest) = (Alg (sourceDigest c) \<noteq> ''sha1''))"
proof -
  have a: "Fetch e c s = (Inl ErrNotSha1Digest, c, s)" if "Alg (sourceDigest c) \<noteq> ''sha1''"
    using that by (simp add: Fetch_def verifyOrFetchRepo_def)
  have b: "fst (Fetch e c s) \<noteq> Inl ErrNotSha1Digest" if sha1: "Alg (sourceDigest c) = ''sha1''"
  proof
    assume f: "fst (Fetch e c s) = Inl ErrNotSha1Digest"
    obtain ok err s1 where v: "verifyRefAndCommit e c s = ((ok, err), s1)"
      by (metis prod.exhaust)
    from f have "fst (verifyOrFetchRepo e c s) = Some ErrNotSha1Digest"
      by (auto simp: Fetch_def split: prod.splits option.splits)
    with sha1 v have "err = Some ErrNotSha1Digest"
      by (auto simp: verifyOrFetchRepo_def split: if_splits prod.splits option.splits)
    with v verifyRefAndCommit_error show False by blast
  qed
  from a b show ?thesis by auto
qed

text \<open>
  Claim C2, amended by the condition that force-checkout is unset. For a client made by
  \<open>newGitClient\<close> with no source ref and a \<open>sha1\<close> digest: when \<open>git rev-parse\<close> succeeds in
  the working directory and its output, white space removed, is the value of the digest,
  \<open>Fetch\<close> succeeds, the only command started is that \<open>git rev-parse\<close> (no clone, no
  checkout, no change of directory), and the checkout info has the empty \<open>RepoRoot\<close>, the
  path that stands for the working directory.
\<close>

theorem C2_verified_checkout_not_fetched:
  assumes "newGitClient e cfg dep = Inr c"
    and "Alg (SourceDigest cfg) = ''sha1''"
    and "sourceRef c = None"
    and "\<not> ForceCheckout cfg"
    and "cmd_Output e (world s) [''git'', ''rev-parse'', ''--verify'', ''HEAD''] = (Some out, w1)"
    and "TrimSpace out = Value (SourceDigest cfg)"
  shows "Fetch e c s =
           (Inr \<lparr>RepoRoot = []\<rparr>, c,
            \<lparr>world = w1, invoked = invoked s @ [[''git'', ''rev-parse'', ''--verify'', ''HEAD'']]\<rparr>)"
proof -
  from assms(1) have f: "checkoutInfo c = \<lparr>RepoRoot = []\<rparr>" "sourceDigest c = SourceDigest cfg"
    "forceCheckout c = ForceCheckout cfg"
    using newGitClient_fields by blast+
  have "verifyRefAndCommit e c s =
          ((True, None), \<lparr>world = w1, invoked = invoked s @ [[''git'', ''rev-parse'', ''--verify'', ''HEAD'']]\<rparr>)"
    using assms(3,5,6) f(2) by (simp add: verifyRefAndCommit_def run_Output_def)
  then show ?thesis
    using assms(2,4) f by (simp add: Fetch_def verifyOrFetchRepo_def)
qed



lemma demo_newGitClient: "newGitClient demo_env demo_config 0 = Inr demo_client"
  by code_simp

text \<open>Claim C5 at a \<open>sha256\<close> digest and at a \<open>sha1\<close> digest.\<close>

theorem C5_fetch_requires_sha1_witness:
  "Fetch demo_env (demo_client\<lparr>sourceDigest := \<lparr>Alg = ''sha256'', Value = ''deadbeef''\<rparr>\<rparr>) demo_start
     = (Inl ErrNotSha1Digest,
        demo_client\<lparr>sourceDigest := \<lparr>Alg = ''sha256'', Value = ''deadbeef''\<rparr>\<rparr>, demo_start)
   \<and> fst (Fetch demo_env demo_client demo_start) \<noteq> Inl ErrNotSha1Digest"
  using C5_fetch_requires_sha1
          [of "demo_client\<lparr>sourceDigest := \<lparr>Alg = ''sha256'', Value = ''deadbeef''\<rparr>\<rparr>" demo_env demo_start]
        C5_fetch_requires_sha1 [of demo_client demo_env demo_start]
  by (simp add: demo_client_def)

text \<open>Claim C2 (amended) in the example environment.\<close>

theorem C2_verified_checkout_not_fetched_witness:
  "Fetch demo_env demo_client demo_start =
     (Inr \<lparr>RepoRoot = []\<rparr>, demo_client,
      \<lparr>world = 0, invoked = [[''git'', ''rev-parse'', ''--verify'', ''HEAD'']]\<rparr>)"
proof -
  have "cmd_Output demo_env (world demo_start) [''git'', ''rev-parse'', ''--verify'', ''HEAD'']
          = (Some ''deadbeef\<newline>'', 0)"
    by (simp add: demo_env_def demo_start_def)
  moreover have "TrimSpace ''deadbeef\<newline>'' = Value (SourceDigest demo_config)"
    by (simp add: TrimSpace_demo demo_config_def)
  ultimately show ?thesis
    using C2_verified_checkout_not_fetched [OF demo_newGitClient, of demo_start _ 0]
    by (simp add: demo_config_def demo_client_def demo_start_def)
qed

text \<open>
  Claim C2 as stated fails when force-checkout is set: the working directory is at the
  requested commit and no ref is given, and yet the repository is cloned, the commit checked
  out, and \<open>RepoRoot\<close> is the new directory.
\<close>

theorem C2_forced_checkout_counterexample:
  "newGitClient demo_env (demo_config\<lparr>ForceCheckout := True\<rparr>) 0
     = Inr (demo_client\<lparr>forceCheckout := True\<rparr>)
   \<and> sourceRef (demo_client\<lparr>forceCheckout := True\<rparr>) = None
   \<and> SourceDigest (demo_config\<lparr>ForceCheckout := True\<rparr>) = \<lparr>Alg = ''sha1'', Value = ''deadbeef''\<rparr>
   \<and> fst (cmd_Output demo_env (world demo_start) [''git'', ''rev-parse'', ''--verify'', ''HEAD''])
       = Some ''deadbeef\<newline>''
   \<and> TrimSpace ''deadbeef\<newline>'' = ''deadbeef''
   \<and> fst (Fetch demo_env (demo_client\<lparr>forceCheckout := True\<rparr>) demo_start)
       = Inr \<lparr>RepoRoot = ''/tmp/release-1/repo''\<rparr>
   \<and> invoked (snd (snd (Fetch demo_env (demo_client\<lparr>forceCheckout := True\<rparr>) demo_start)))
       = [[''git'', ''rev-parse'', ''--verify'', ''HEAD''],
          [''git'', ''clone'', ''https://example.com/repo''],
          [''git'', ''checkout'', ''deadbeef''],
          [''git'', ''rev-parse'', ''--verify'', ''HEAD'']]"
  by code_simp



section \<open>Constructing the git client\<close>

lemma Split_nonempty: "Split s c \<noteq> []"
  by (induction s) (auto split: list.splits)

lemma length_Split: "length (Split s c) = Suc (count_list s c)"
  by (induction s) (auto split: list.splits simp: Split_nonempty)

lemma Split_no_sep: "c \<notin> set s \<Longrightarrow> Split s c = [s]"
  by (induction s) auto

lemma Split_prefix: "c \<notin> set a \<Longrightarrow> Split (a @ s) c = (a @ hd (Split s c)) # tl (Split s c)"
  by (induction a) (auto split: list.splits simp: Split_nonempty)

lemma Split_one: "c \<notin> set a \<Longrightarrow> c \<notin> set b \<Longrightarrow> Split (a @ c # b) c = [a, b]"
  by (simp add: Split_prefix Split_no_sep)

lemma url_Parse_git_https:
  "url_Parse e (''git+https:'' @ rest) = Some scheme \<Longrightarrow> scheme = ''git+https''"
  by (auto simp: url_Parse_def parse_scheme_def getScheme_def is_letter_def is_scheme_punct_def
        ToLower_def lower_byte_def Let_def split: if_splits option.splits)

lemma url_Parse_https_git:
  "url_Parse e (''https+git:'' @ rest) = Some scheme \<Longrightarrow> scheme = ''https+git''"
  by (auto simp: url_Parse_def parse_scheme_def getScheme_def is_letter_def is_scheme_punct_def
        ToLower_def lower_byte_def Let_def split: if_splits option.splits)

lemma Replace1_git_https:
  "Replace1 (''git+https:'' @ rest) ''git+https'' ''https'' = ''https:'' @ rest"
  by (simp add: HasPrefix_def)

lemma Replace1_https_git:
  "Replace1 (''https+git:'' @ rest) ''https+git'' ''https'' = ''https:'' @ rest"
  by (simp add: HasPrefix_def)


lemma newGitClient_rewritten:
  assumes "url_Parse e (SourceRepo cfg) = Some scheme"
    and "SourceRepo cfg = ''git+https:'' @ rest \<or> SourceRepo cfg = ''https+git:'' @ rest"
  shows "newGitClient e cfg dep =
     (let repo = ''https:'' @ rest; refParts = Split repo (CHR ''@'')
      in if length refParts = 2 then
           Inr \<lparr>sourceRepo = TrimSuffix repo (''@'' @ refParts ! 1),
                sourceRef = Some (refParts ! 1),
                sourceDigest = SourceDigest cfg,
                checkoutInfo = \<lparr>RepoRoot = []\<rparr>,
                logFiles = [], errFiles = [],
                forceCheckout = ForceCheckout cfg,
                verbose = Verbose cfg,
                depth = dep\<rparr>
         else if length refParts = 1 then
           Inr \<lparr>sourceRepo = repo,
                sourceRef = None,
                sourceDigest = SourceDigest cfg,
                checkoutInfo = \<lparr>RepoRoot = []\<rparr>,
                logFiles = [], errFiles = [],
                forceCheckout = ForceCheckout cfg,
                verbose = Verbose cfg,
                depth = dep\<rparr>
         else Inl (ErrInvalidRepoFormat repo))"
proof -
  from assms(2) show ?thesis
  proof
    assume r: "SourceRepo cfg = ''git+https:'' @ rest"
    with assms(1) have "scheme = ''git+https''" using url_Parse_git_https by metis
    with assms(1) r show ?thesis
      unfolding newGitClient_def by (simp only: Replace1_git_https option.case) simp
  next
    assume r: "SourceRepo cfg = ''https+git:'' @ rest"
    with assms(1) have "scheme = ''https+git''" using url_Parse_https_git by metis
    with assms(1) r show ?thesis
      unfolding newGitClient_def by (simp only: Replace1_https_git option.case) simp
  qed
qed

lemma count_https: "count_list (''https:'' @ rest) (CHR ''@'') = count_list rest (CHR ''@'')"
  by simp

lemma TrimSuffix_append: "TrimSuffix (a @ b) b = a"
  by (simp add: TrimSuffix_def HasSuffix_def)

text \<open>
  Claim C3, amended: the scheme is the one written in lower case at the head of the URI, and
  the part after a single \<open>@\<close> is the source ref. For a source repository URI that
  \<open>url.Parse\<close> accepts: when it begins with \<open>git+https:\<close> or \<open>https+git:\<close>, followed by
  \<open>rest\<close>, then with no \<open>@\<close> in \<open>rest\<close> the client has the repository \<open>https:\<close> followed
  by \<open>rest\<close> and no ref; with one \<open>@\<close> in \<open>rest\<close> the repository is \<open>https:\<close> followed by
  the part before the \<open>@\<close>, and the ref is the part after it; with two or more \<open>@\<close> the
  construction fails with the error of the invalid repository format. When the scheme that
  \<open>url.Parse\<close> returns is none of \<open>https\<close>, \<open>git+https\<close> and \<open>https+git\<close>, the construction
  fails with the error of the unsupported scheme.
\<close>

theorem C3_scheme_normalisation:
  assumes "url_Parse e (SourceRepo cfg) = Some scheme"
  shows "(SourceRepo cfg = ''git+https:'' @ rest \<or> SourceRepo cfg = ''https+git:'' @ rest \<longrightarrow>
            (CHR ''@'' \<notin> set rest \<longrightarrow>
               newGitClient e cfg dep =
                 Inr \<lparr>sourceRepo = ''https:'' @ rest, sourceRef = None,
                      sourceDigest = SourceDigest cfg, checkoutInfo = \<lparr>RepoRoot = []\<rparr>,
                      logFiles = [], errFiles = [], forceCheckout = ForceCheckout cfg,
                      verbose = Verbose cfg, depth = dep\<rparr>)
          \<and> (rest = a @ ''@'' @ b \<and> CHR ''@'' \<notin> set a \<and> CHR ''@'' \<notin> set b \<longrightarrow>
               newGitClient e cfg dep =
                 Inr \<lparr>sourceRepo = ''https:'' @ a, sourceRef = Some b,
                      sourceDigest = SourceDigest cfg, checkoutInfo = \<lparr>RepoRoot = []\<rparr>,
                      logFiles = [], errFiles = [], forceCheckout = ForceCheckout cfg,
                      verbose = Verbose cfg, depth = dep\<rparr>)
          \<and> (2 \<le> count_list rest (CHR ''@'') \<longrightarrow>
               newGitClient e cfg dep = Inl (ErrInvalidRepoFormat (''https:'' @ rest))))
       \<and> (scheme \<noteq> ''https'' \<and> scheme \<noteq> ''git+https'' \<and> scheme \<noteq> ''https+git'' \<longrightarrow>
            newGitClient e cfg dep = Inl (ErrUnsupportedScheme scheme))"
proof -
  have none: "newGitClient e cfg dep =
                 Inr \<lparr>sourceRepo = ''https:'' @ rest, sourceRef = None,
                      sourceDigest = SourceDigest cfg, checkoutInfo = \<lparr>RepoRoot = []\<rparr>,
                      logFiles = [], errFiles = [], forceCheckout = ForceCheckout cfg,
                      verbose = Verbose cfg, depth = dep\<rparr>"
    if r: "SourceRepo cfg = ''git+https:'' @ rest \<or> SourceRepo cfg = ''https+git:'' @ rest"
      and n: "CHR ''@'' \<notin> set rest"
  proof -
    from n have "CHR ''@'' \<notin> set (''https:'' @ rest)" by simp
    then have "Split (''https:'' @ rest) (CHR ''@'') = [''https:'' @ rest]" by (rule Split_no_sep)
    then show ?thesis
      unfolding newGitClient_rewritten [OF assms r] Let_def by (simp del: Split.simps)
  qed
  have one: "newGitClient e cfg dep =
                 Inr \<lparr>sourceRepo = ''https:'' @ a, sourceRef = Some b,
                      sourceDigest = SourceDigest cfg, checkoutInfo = \<lparr>RepoRoot = []\<rparr>,
                      logFiles = [], errFiles = [], forceCheckout = ForceCheckout cfg,
                      verbose = Verbose cfg, depth = dep\<rparr>"
    if r: "SourceRepo cfg = ''git+https:'' @ rest \<or> SourceRepo cfg = ''https+git:'' @ rest"
      and ab: "rest = a @ ''@'' @ b" "CHR ''@'' \<notin> set a" "CHR ''@'' \<notin> set b"
  proof -
    from ab(2) have "CHR ''@'' \<notin> set (''https:'' @ a)" by simp
    from Split_one [OF this ab(3)]
    have sp: "Split (''https:'' @ rest) (CHR ''@'') = [''https:'' @ a, b]"
      using ab(1) by simp
    have "''https:'' @ rest = (''https:'' @ a) @ (''@'' @ b)" using ab(1) by simp
    then have ts: "TrimSuffix (''https:'' @ rest) (''@'' @ b) = ''https:'' @ a"
      by (simp only: TrimSuffix_append)
    show ?thesis
      unfolding newGitClient_rewritten [OF assms r] Let_def sp using ts by simp
  qed
  have many: "newGitClient e cfg dep = Inl (ErrInvalidRepoFormat (''https:'' @ rest))"
    if r: "SourceRepo cfg = ''git+https:'' @ rest \<or> SourceRepo cfg = ''https+git:'' @ rest"
      and n: "2 \<le> count_list rest (CHR ''@'')"
  proof -
    have "length (Split (''https:'' @ rest) (CHR ''@'')) = Suc (count_list rest (CHR ''@''))"
      by (simp only: length_Split count_https)
    with n have "length (Split (''https:'' @ rest) (CHR ''@'')) \<noteq> 2"
      and "length (Split (''https:'' @ rest) (CHR ''@'')) \<noteq> 1" by simp_all
    then show ?thesis
      unfolding newGitClient_rewritten [OF assms r] Let_def by (simp del: Split.simps)
  qed
  have other: "newGitClient e cfg dep = Inl (ErrUnsupportedScheme scheme)"
    if "scheme \<noteq> ''https'' \<and> scheme \<noteq> ''git+https'' \<and> scheme \<noteq> ''https+git''"
    using assms that by (simp add: newGitClient_def)
  from none one many other show ?thesis by blast
qed

text \<open>Claim C3 (amended) at four URIs of the example environment.\<close>

theorem C3_scheme_normalisation_witness:
  "newGitClient demo_env demo_config 0 = Inr demo_client
   \<and> newGitClient demo_env (demo_config\<lparr>SourceRepo := ''https+git://example.com/repo@v1.0''\<rparr>) 0
       = Inr (demo_client\<lparr>sourceRef := Some ''v1.0''\<rparr>)
   \<and> newGitClient demo_env (demo_config\<lparr>SourceRepo := ''git+https://a@example.com/repo@v1.0''\<rparr>) 0
       = Inl (ErrInvalidRepoFormat ''https://a@example.com/repo@v1.0'')
   \<and> newGitClient demo_env (demo_config\<lparr>SourceRepo := ''ssh://example.com/repo''\<rparr>) 0
       = Inl (ErrUnsupportedScheme ''ssh'')"
proof -
  have p1: "url_Parse demo_env (SourceRepo demo_config) = Some ''git+https''" by code_simp
  have p2: "url_Parse demo_env
      (SourceRepo (demo_config\<lparr>SourceRepo := ''https+git://example.com/repo@v1.0''\<rparr>))
      = Some ''https+git''" by code_simp
  have p3: "url_Parse demo_env
      (SourceRepo (demo_config\<lparr>SourceRepo := ''git+https://a@example.com/repo@v1.0''\<rparr>))
      = Some ''git+https''" by code_simp
  have p4: "url_Parse demo_env (SourceRepo (demo_config\<lparr>SourceRepo := ''ssh://example.com/repo''\<rparr>))
      = Some ''ssh''" by code_simp
  have c3: "2 \<le> count_list ''//a@example.com/repo@v1.0'' (CHR ''@'')" by simp
  have w1: "newGitClient demo_env demo_config 0 = Inr demo_client"
    using C3_scheme_normalisation [OF p1, where rest = "''//example.com/repo''" and dep = 0]
    by (simp add: demo_config_def demo_client_def)
  have w2: "newGitClient demo_env (demo_config\<lparr>SourceRepo := ''https+git://example.com/repo@v1.0''\<rparr>) 0
       = Inr (demo_client\<lparr>sourceRef := Some ''v1.0''\<rparr>)"
    using C3_scheme_normalisation [OF p2, where rest = "''//example.com/repo@v1.0''" and dep = 0
            and a = "''//example.com/repo''" and b = "''v1.0''"]
    by (simp add: demo_config_def demo_client_def)
  have w3: "newGitClient demo_env (demo_config\<lparr>SourceRepo := ''git+https://a@example.com/repo@v1.0''\<rparr>) 0
       = Inl (ErrInvalidRepoFormat ''https://a@example.com/repo@v1.0'')"
    using C3_scheme_normalisation [OF p3, where rest = "''//a@example.com/repo@v1.0''" and dep = 0] c3
    by (simp add: demo_config_def)
  have w4: "newGitClient demo_env (demo_config\<lparr>SourceRepo := ''ssh://example.com/repo''\<rparr>) 0
       = Inl (ErrUnsupportedScheme ''ssh'')"
    using C3_scheme_normalisation [OF p4, where dep = 0]
    by simp
  from w1 w2 w3 w4 show ?thesis by simp
qed

text \<open>
  Claim C3 as stated fails at URIs with the scheme \<open>git+https\<close> that \<open>url.Parse\<close> accepts:
  the ref after the \<open>@\<close> is cut off the repository, so that the rest of the URI is not kept
  byte for byte; and with user information \<open>a@\<close> and a ref the construction fails.
\<close>

theorem C3_ref_suffix_counterexample:
  "url_Parse demo_env ''git+https://example.com/repo@v1.0'' = Some ''git+https''
   \<and> newGitClient demo_env (demo_config\<lparr>SourceRepo := ''git+https://example.com/repo@v1.0''\<rparr>) 0
       = Inr (demo_client\<lparr>sourceRef := Some ''v1.0''\<rparr>)
   \<and> sourceRepo (demo_client\<lparr>sourceRef := Some ''v1.0''\<rparr>) = ''https://example.com/repo''
   \<and> ''https://example.com/repo'' \<noteq> ''https'' @ drop 9 ''git+https://example.com/repo@v1.0''
   \<and> url_Parse demo_env ''git+https://a@example.com/repo@v1.0'' = Some ''git+https''
   \<and> newGitClient demo_env (demo_config\<lparr>SourceRepo := ''git+https://a@example.com/repo@v1.0''\<rparr>) 0
       = Inl (ErrInvalidRepoFormat ''https://a@example.com/repo@v1.0'')"
  by code_simp

section \<open>Only git commands are started while fetching\<close>

lemma only_git_started_iff:
  "only_git_started s s' = (\<exists>cmds. invoked s' = invoked s @ cmds \<and> list_all is_git cmds)"
  unfolding only_git_started_def
  by (metis append_eq_conv_conj)

lemma only_git_refl: "only_git_started s s"
  by (simp add: only_git_started_def)

lemma only_git_trans:
  "only_git_started s s' \<Longrightarrow> only_git_started s' s'' \<Longrightarrow> only_git_started s s''"
  unfolding only_git_started_iff by auto

lemma only_git_world_l: "only_git_started (s\<lparr>world := w\<rparr>) s' = only_git_started s s'"
  by (simp add: only_git_started_def)

lemma only_git_world_r: "only_git_started s (s'\<lparr>world := w\<rparr>) = only_git_started s s'"
  by (simp add: only_git_started_def)

lemma run_Output_git:
  "is_git argv \<Longrightarrow> run_Output e argv s = (r, s') \<Longrightarrow> only_git_started s s'"
  by (auto simp: run_Output_def only_git_started_def split: prod.splits)

lemma run_with_pipes_git:
  "is_git argv \<Longrightarrow> run_with_pipes e v argv s = (r, s') \<Longrightarrow> only_git_started s s'"
  by (auto simp: run_with_pipes_def only_git_started_def split: prod.splits)

lemma verify_cmds_git:
  "list_all is_git cmds \<Longrightarrow> verify_cmds e v cmds s = (r, s') \<Longrightarrow> only_git_started s s'"
proof (induction cmds arbitrary: s)
  case Nil
  then show ?case by (simp add: only_git_refl)
next
  case (Cons cmd cmds)
  obtain o1 s1 where ro: "run_Output e cmd s = (o1, s1)" by (metis prod.exhaust)
  with Cons.prems have g1: "only_git_started s s1" using run_Output_git by auto
  show ?case
  proof (cases o1)
    case None
    with ro Cons.prems g1 show ?thesis by auto
  next
    case (Some out)
    show ?thesis
    proof (cases "TrimSpace out = v")
      case True
      with ro Some Cons.prems have "verify_cmds e v cmds s1 = (r, s')" by simp
      with Cons.IH Cons.prems have "only_git_started s1 s'" by simp
      with g1 show ?thesis by (rule only_git_trans)
    next
      case False
      with ro Some Cons.prems g1 show ?thesis by auto
    qed
  qed
qed

lemma verifyRefAndCommit_git:
  assumes "verifyRefAndCommit e c s = (r, s')"
  shows "only_git_started s s'"
proof -
  let ?cmds = "[[''git'', ''rev-parse'', ''--verify'', ''HEAD'']] @
            (case sourceRef c of
               None \<Rightarrow> []
             | Some ref \<Rightarrow> [[''git'', ''show-ref'', ''--hash'', ''--verify'', ref]])"
  have "list_all is_git ?cmds" by (simp add: is_git_def split: option.splits)
  moreover have "verify_cmds e (Value (sourceDigest c)) ?cmds s = (r, s')"
    using assms by (simp add: verifyRefAndCommit_def)
  ultimately show ?thesis by (rule verify_cmds_git)
qed

lemma cloneGitRepo_git:
  assumes "cloneGitRepo e c s = (r, c', s')"
  shows "only_git_started s s'"
proof -
  let ?argv = "(if depth c > 0
                  then [''git'', ''clone'', ''--depth'', Sprintf_d (depth c), sourceRepo c]
                  else [''git'', ''clone'', sourceRepo c])"
  obtain rr s1 where rw: "run_with_pipes e (verbose c) ?argv s = (rr, s1)" by (metis prod.exhaust)
  have "is_git ?argv" by (simp add: is_git_def)
  then have "only_git_started s s1" using rw by (rule run_with_pipes_git)
  moreover have "s' = s1" using assms rw
    by (cases rr) (auto simp: cloneGitRepo_def Let_def)
  ultimately show ?thesis by simp
qed

lemma checkoutGitCommit_git:
  assumes "checkoutGitCommit e c s = (r, c', s')"
  shows "only_git_started s s'"
proof -
  let ?argv = "[''git'', ''checkout'', Value (sourceDigest c)]"
  obtain rr s1 where rw: "run_with_pipes e (verbose c) ?argv s = (rr, s1)" by (metis prod.exhaust)
  have "is_git ?argv" by (simp add: is_git_def)
  then have g1: "only_git_started s s1" using rw by (rule run_with_pipes_git)
  show ?thesis
  proof (cases rr)
    case (Completed f0 f1)
    obtain vr s2 where v: "verifyRefAndCommit e
        (c\<lparr>logFiles := logFiles c @ [f0], errFiles := errFiles c @ [f1]\<rparr>) s1 = (vr, s2)"
      by (metis prod.exhaust)
    then have "only_git_started s1 s2" by (rule verifyRefAndCommit_git)
    moreover have "s' = s2" using assms rw Completed v
      by (auto simp: checkoutGitCommit_def Let_def split: prod.splits if_splits)
    ultimately show ?thesis using g1 only_git_trans by blast
  qed (use assms rw g1 in \<open>auto simp: checkoutGitCommit_def\<close>)
qed

lemma fetchSourcesFromGitRepo_git:
  assumes "fetchSourcesFromGitRepo e c s = (r, c', s')"
  shows "only_git_started s s'"
proof -
  obtain t w1 where mt: "MkdirTemp e (world s) = (t, w1)" by (metis prod.exhaust)
  show ?thesis
  proof (cases t)
    case None
    with assms mt show ?thesis
      by (auto simp: fetchSourcesFromGitRepo_def only_git_world_r only_git_refl)
  next
    case (Some targetDir)
    obtain b2 w2 where ma: "MkdirAll e w1 targetDir = (b2, w2)" by (metis prod.exhaust)
    obtain b3 w3 where cd: "Chdir e w2 targetDir = (b3, w3)" by (metis prod.exhaust)
    obtain r1 c1 s1 where cl: "cloneGitRepo e c (s\<lparr>world := w3\<rparr>) = (r1, c1, s1)"
      by (metis prod.exhaust)
    from cloneGitRepo_git [OF cl] have g1: "only_git_started s s1"
      by (simp add: only_git_world_l)
    obtain b4 w4 where cd2: "Chdir e (world s1) (Base (sourceRepo c1)) = (b4, w4)"
      by (metis prod.exhaust)
    obtain r2 c2 s2 where co: "checkoutGitCommit e c1 (s1\<lparr>world := w4\<rparr>) = (r2, c2, s2)"
      by (metis prod.exhaust)
    from checkoutGitCommit_git [OF co] have "only_git_started s1 s2"
      by (simp add: only_git_world_l)
    with g1 have g2: "only_git_started s s2" by (rule only_git_trans)
    from assms mt Some ma cd cl cd2 co g1 g2 show ?thesis
      by (auto simp: fetchSourcesFromGitRepo_def Let_def only_git_world_r only_git_refl
               split: bool.splits option.splits)
  qed
qed

lemma verifyOrFetchRepo_git:
  assumes "verifyOrFetchRepo e c s = (r, c', s')"
  shows "only_git_started s s'"
proof (cases "Alg (sourceDigest c) = ''sha1''")
  case False
  with assms show ?thesis by (simp add: verifyOrFetchRepo_def only_git_refl)
next
  case True
  obtain ok err s1 where v: "verifyRefAndCommit e c s = ((ok, err), s1)"
    by (metis prod.exhaust)
  then have g1: "only_git_started s s1" by (rule verifyRefAndCommit_git)
  obtain r2 c2 s2 where f: "fetchSourcesFromGitRepo e c s1 = (r2, c2, s2)"
    by (metis prod.exhaust)
  then have "only_git_started s1 s2" by (rule fetchSourcesFromGitRepo_git)
  with g1 have g2: "only_git_started s s2" by (rule only_git_trans)
  from assms True v f g1 g2 show ?thesis
    by (auto simp: verifyOrFetchRepo_def split: if_splits option.splits)
qed

lemma Fetch_git:
  assumes "Fetch e c s = (r, c', s')"
  shows "only_git_started s s'"
proof -
  obtain r1 c1 s1 where v: "verifyOrFetchRepo e c s = (r1, c1, s1)" by (metis prod.exhaust)
  then have "only_git_started s s1" by (rule verifyOrFetchRepo_git)
  moreover have "s' = s1" using assms v by (auto simp: Fetch_def split: option.splits)
  ultimately show ?thesis by simp
qed

section \<open>The pre-flight check of the artifact pattern\<close>

text \<open>
  Claim C6. \<open>SetUpBuildState\<close> fetches, loads the build configuration and then checks the
  artifact pattern of that configuration. When the pattern matches one or more files at that
  moment, \<open>SetUpBuildState\<close> fails with the error of pre-existing files, which carries the
  pattern and the number of matches, and the only commands started are git commands, so no
  container was started. When the pattern matches no file, the check succeeds and the build
  state is returned.
\<close>

theorem C6_preexisting_artifacts:
  assumes "Fetch e (repoFetcher b) s = (Inr repoInfo, c', s1)"
    and "LoadBuildConfigFromFile e (world s1) (config_b b) = Some bc"
    and "Glob e (world s1) (ArtifactPath bc) = Some matches"
  shows "(matches \<noteq> [] \<longrightarrow>
            SetUpBuildState e b s
              = (Inl (ErrExistingFiles (ArtifactPath bc) (length matches)), c', s1)
            \<and> only_git_started s s1)
       \<and> (matches = [] \<longrightarrow>
            CheckExistingFiles e (world s1) (ArtifactPath bc) = None
            \<and> SetUpBuildState e b s
                = (Inr \<lparr>config = config_b b, buildConfig = bc, RepoInfo = repoInfo\<rparr>, c', s1))"
  using assms Fetch_git [OF assms(1)]
  by (simp add: SetUpBuildState_def CheckExistingFiles_def)

text \<open>Claim C6 in the example environment, with and without a stale artifact.\<close>

theorem C6_preexisting_artifacts_witness:
  "SetUpBuildState stale_env demo_builder demo_start
     = (Inl (ErrExistingFiles ''dist/*.tar.gz'' 1), demo_client,
        \<lparr>world = 0, invoked = [[''git'', ''rev-parse'', ''--verify'', ''HEAD'']]\<rparr>)
   \<and> only_git_started demo_start
        \<lparr>world = 0, invoked = [[''git'', ''rev-parse'', ''--verify'', ''HEAD'']]\<rparr>
   \<and> CheckExistingFiles demo_env 0 ''dist/*.tar.gz'' = None
   \<and> SetUpBuildState demo_env demo_builder demo_start
       = (Inr demo_build, demo_client,
          \<lparr>world = 0, invoked = [[''git'', ''rev-parse'', ''--verify'', ''HEAD'']]\<rparr>)"
proof -
  let ?s1 = "\<lparr>world = 0::nat, invoked = [[''git'', ''rev-parse'', ''--verify'', ''HEAD'']]\<rparr>"
  let ?bc = "\<lparr>Command = Some [''make'', ''release''], ArtifactPath = ''dist/*.tar.gz''\<rparr>"
  have f1: "Fetch stale_env (repoFetcher demo_builder) demo_start
              = (Inr \<lparr>RepoRoot = []\<rparr>, demo_client, ?s1)"
    by code_simp
  have l1: "LoadBuildConfigFromFile stale_env (world ?s1) (config_b demo_builder) = Some ?bc"
    by code_simp
  have g1: "Glob stale_env (world ?s1) (ArtifactPath ?bc) = Some [''dist/app.tar.gz'']"
    by code_simp
  have f2: "Fetch demo_env (repoFetcher demo_builder) demo_start
              = (Inr \<lparr>RepoRoot = []\<rparr>, demo_client, ?s1)"
    by code_simp
  have l2: "LoadBuildConfigFromFile demo_env (world ?s1) (config_b demo_builder) = Some ?bc"
    by code_simp
  have g2: "Glob demo_env (world ?s1) (ArtifactPath ?bc) = Some []"
    by code_simp
  show ?thesis
    using C6_preexisting_artifacts [OF f1 l1 g1] C6_preexisting_artifacts [OF f2 l2 g2]
    by (simp add: demo_builder_def demo_build_def)
qed

text \<open>
  Claim C10. For a malformed pattern the pre-flight check and the inspection after the build
  both fail with the error that carries the malformed pattern, in any state of the file
  system: the pattern is not taken to match nothing. \<open>SetUpBuildState\<close> returns that error
  once the configuration with this pattern is loaded, and up to then only git commands were
  started; after a build that succeeded, \<open>BuildArtifacts\<close> returns it as well.
\<close>

theorem C10_malformed_pattern:
  assumes "bad_pattern e pattern"
  shows "CheckExistingFiles e w pattern = Some (ErrMalformedPattern pattern)
       \<and> inspectAndWriteArtifacts e pattern outputFolder root s'
           = (Inl (ErrMalformedPattern pattern), s')
       \<and> (Fetch e (repoFetcher b) s = (Inr repoInfo, c', s1)
            \<and> LoadBuildConfigFromFile e (world s1) (config_b b) = Some bc
            \<and> ArtifactPath bc = pattern
          \<longrightarrow> SetUpBuildState e b s = (Inl (ErrMalformedPattern pattern), c', s1)
              \<and> only_git_started s s1)
       \<and> (runDockerRun e db s2 = (None, s3) \<and> ArtifactPath (buildConfig db) = pattern
          \<longrightarrow> BuildArtifacts e db outputFolder s2 = (Inl (ErrMalformedPattern pattern), s3))"
proof -
  have 1: "CheckExistingFiles e w pattern = Some (ErrMalformedPattern pattern)" for w
    using assms by (simp add: CheckExistingFiles_def Glob_def)
  have 2: "inspectAndWriteArtifacts e pattern outputFolder root s'
           = (Inl (ErrMalformedPattern pattern), s')" for root s'
    using assms by (simp add: inspectAndWriteArtifacts_def Glob_def)
  have 3: "SetUpBuildState e b s = (Inl (ErrMalformedPattern pattern), c', s1)
              \<and> only_git_started s s1"
    if "Fetch e (repoFetcher b) s = (Inr repoInfo, c', s1)"
      "LoadBuildConfigFromFile e (world s1) (config_b b) = Some bc" "ArtifactPath bc = pattern"
    using that 1 Fetch_git [OF that(1)] by (simp add: SetUpBuildState_def)
  have 4: "BuildArtifacts e db outputFolder s2 = (Inl (ErrMalformedPattern pattern), s3)"
    if "runDockerRun e db s2 = (None, s3)" "ArtifactPath (buildConfig db) = pattern"
    using that 2 by (simp add: BuildArtifacts_def)
  from 1 2 3 4 show ?thesis by blast
qed

text \<open>Claim C10 in the example environment with the malformed pattern.\<close>

theorem C10_malformed_pattern_witness:
  "CheckExistingFiles bad_pattern_env 0 ''['' = Some (ErrMalformedPattern ''['')
   \<and> inspectAndWriteArtifacts bad_pattern_env ''['' [] [] demo_start
       = (Inl (ErrMalformedPattern ''[''), demo_start)
   \<and> SetUpBuildState bad_pattern_env demo_builder demo_start
       = (Inl (ErrMalformedPattern ''[''), demo_client,
          \<lparr>world = 0, invoked = [[''git'', ''rev-parse'', ''--verify'', ''HEAD'']]\<rparr>)
   \<and> only_git_started demo_start
        \<lparr>world = 0, invoked = [[''git'', ''rev-parse'', ''--verify'', ''HEAD'']]\<rparr>
   \<and> BuildArtifacts bad_pattern_env
        (demo_build\<lparr>buildConfig := \<lparr>Command = Some [''make'', ''release''], ArtifactPath = ''[''\<rparr>\<rparr>)
        [] demo_start
       = (Inl (ErrMalformedPattern ''[''),
          \<lparr>world = 1,
            invoked = [[''docker'', ''run'', ''--volume=/tmp/release-1/repo:/workspace'',
                        ''--workdir=/workspace'', ''--rm'', ''example.com/img@sha256:abcd'',
                        ''make'', ''release'']]\<rparr>)"
proof -
  let ?s1 = "\<lparr>world = 0::nat, invoked = [[''git'', ''rev-parse'', ''--verify'', ''HEAD'']]\<rparr>"
  let ?bc = "\<lparr>Command = Some [''make'', ''release''], ArtifactPath = ''[''\<rparr>"
  let ?db = "demo_build\<lparr>buildConfig := ?bc\<rparr>"
  let ?s3 = "\<lparr>world = 1::nat,
            invoked = [[''docker'', ''run'', ''--volume=/tmp/release-1/repo:/workspace'',
                        ''--workdir=/workspace'', ''--rm'', ''example.com/img@sha256:abcd'',
                        ''make'', ''release'']]\<rparr>"
  have b: "bad_pattern bad_pattern_env ''[''" by code_simp
  have f: "Fetch bad_pattern_env (repoFetcher demo_builder) demo_start
              = (Inr \<lparr>RepoRoot = []\<rparr>, demo_client, ?s1)"
    by code_simp
  have l: "LoadBuildConfigFromFile bad_pattern_env (world ?s1) (config_b demo_builder) = Some ?bc"
    by code_simp
  have r: "runDockerRun bad_pattern_env ?db demo_start = (None, ?s3)"
    by code_simp
  have p: "ArtifactPath (buildConfig ?db) = ''[''" by simp
  show ?thesis
    using C10_malformed_pattern [OF b, where w = 0 and outputFolder = "[]" and root = "[]"
            and s' = demo_start and b = demo_builder and s = demo_start
            and repoInfo = "\<lparr>RepoRoot = []\<rparr>" and c' = demo_client and ?s1.0 = ?s1 and bc = ?bc
            and db = ?db and ?s2.0 = demo_start and ?s3.0 = ?s3] f l r p
    by simp
qed

section \<open>The artifacts of a build\<close>

lemma hex_digit_mem: "n < 16 \<Longrightarrow> ''0123456789abcdef'' ! n \<in> set ''0123456789abcdef''"
  by (rule nth_mem) simp

lemma set_pair_subset: "a \<in> S \<Longrightarrow> b \<in> S \<Longrightarrow> set [a, b] \<subseteq> S"
  by simp

lemma concat_map_subset: "(\<And>x. set (f x) \<subseteq> S) \<Longrightarrow> set (concat (map f xs)) \<subseteq> S"
  by (induction xs) auto

lemma hex_byte_lower: "set (hex_byte c) \<subseteq> set ''0123456789abcdef''"
proof -
  have "(of_char c :: nat) < 256" by (rule nat_of_char_less_256)
  then have d: "(of_char c :: nat) div 16 < 16" by (simp add: less_mult_imp_div_less)
  have m: "(of_char c :: nat) mod 16 < 16" by simp
  show ?thesis
    unfolding hex_byte_def
    by (rule set_pair_subset [OF hex_digit_mem [OF d] hex_digit_mem [OF m]])
qed

lemma EncodeToString_lower: "set (EncodeToString bs) \<subseteq> set ''0123456789abcdef''"
  unfolding EncodeToString_def by (rule concat_map_subset) (rule hex_byte_lower)

lemma EncodeToString_length: "length (EncodeToString bs) = 2 * length bs"
  by (induction bs) (simp_all add: EncodeToString_def hex_byte_def)

lemma inspect_loop_no_copy:
  "\<forall>p\<in>set paths. SafeReadFile e (world s) p \<noteq> None \<Longrightarrow>
   inspect_loop e [] root paths acc s
     = (Inr (acc @ map (\<lambda>p. toIntotoSubject e (the (SafeReadFile e (world s) p)) p) paths), s)"
proof (induction paths arbitrary: acc)
  case Nil
  then show ?case by simp
next
  case (Cons p paths)
  then obtain data where d: "SafeReadFile e (world s) p = Some data" by auto
  from Cons.prems have "\<forall>p\<in>set paths. SafeReadFile e (world s) p \<noteq> None" by simp
  from Cons.IH [OF this] d show ?case by (simp add: Let_def)
qed


lemma is_read_or_copy_error_simps:
  "is_read_or_copy_error (ErrReadFile p)"
  "is_read_or_copy_error ErrAbs"
  "is_read_or_copy_error (ErrRel r p)"
  "is_read_or_copy_error ErrCreateOutputFile"
  "is_read_or_copy_error ErrWriteOutputFile"
  by (simp_all add: is_read_or_copy_error_def)

lemma inspect_loop_unread:
  "SafeReadFile e (world s) p = None \<Longrightarrow>
   inspect_loop e out root (p # paths) acc s = (Inl (ErrReadFile p), s)"
  by simp

lemma inspect_loop_no_out:
  "SafeReadFile e (world s) p = Some data \<Longrightarrow>
   inspect_loop e [] root (p # paths) acc s
     = inspect_loop e [] root paths (acc @ [toIntotoSubject e data p]) s"
  by (simp add: Let_def)

lemma inspect_loop_abs_failed:
  "SafeReadFile e (world s) p = Some data \<Longrightarrow> out \<noteq> [] \<Longrightarrow>
   (if root \<noteq> [] then filepath_Abs e (world s) p else Some p) = None \<Longrightarrow>
   inspect_loop e out root (p # paths) acc s = (Inl ErrAbs, s)"
  by (simp add: Let_def)

lemma inspect_loop_rel_failed:
  "SafeReadFile e (world s) p = Some data \<Longrightarrow> out \<noteq> [] \<Longrightarrow>
   (if root \<noteq> [] then filepath_Abs e (world s) p else Some p) = Some path' \<Longrightarrow>
   filepath_Rel e root path' = None \<Longrightarrow>
   inspect_loop e out root (p # paths) acc s = (Inl (ErrRel root path'), s)"
  by (simp add: Let_def)

lemma inspect_loop_write:
  "SafeReadFile e (world s) p = Some data \<Longrightarrow> out \<noteq> [] \<Longrightarrow>
   (if root \<noteq> [] then filepath_Abs e (world s) p else Some p) = Some path' \<Longrightarrow>
   filepath_Rel e root path' = Some relPath \<Longrightarrow>
   write_output e (world s) relPath out data = (wr, w') \<Longrightarrow>
   inspect_loop e out root (p # paths) acc s
     = (case wr of
          CreateFailed \<Rightarrow> (Inl ErrCreateOutputFile, s\<lparr>world := w'\<rparr>)
        | WriteFailed \<Rightarrow> (Inl ErrWriteOutputFile, s\<lparr>world := w'\<rparr>)
        | Written \<Rightarrow> inspect_loop e out root paths (acc @ [toIntotoSubject e data p])
                      (s\<lparr>world := w'\<rparr>))"
  by (cases wr) (simp_all add: Let_def)


lemma inspect_loop_result:
  "inspect_loop e out root paths acc s = (r, s') \<Longrightarrow>
   (case r of
      Inl err \<Rightarrow> is_read_or_copy_error err
    | Inr subjects \<Rightarrow> \<exists>new. subjects = acc @ new \<and> list_all2 (subject_of e) paths new)"
proof (induction paths arbitrary: acc s)
  case Nil
  then show ?case by auto
next
  case (Cons p paths)
  note run = Cons.prems
  show ?case
  proof (cases "SafeReadFile e (world s) p")
    case None
    from run have "r = Inl (ErrReadFile p)"
      unfolding inspect_loop_unread [OF None] by simp
    then show ?thesis by (simp add: is_read_or_copy_error_simps)
  next
    case (Some data)
    let ?sub = "toIntotoSubject e data p"
    have so: "subject_of e p ?sub"
      using Some by (auto simp: subject_of_def toIntotoSubject_def)
    have step: "(case r of
        Inl err \<Rightarrow> is_read_or_copy_error err
      | Inr subjects \<Rightarrow> \<exists>new. subjects = acc @ new \<and> list_all2 (subject_of e) (p # paths) new)"
      if "inspect_loop e out root paths (acc @ [?sub]) s2 = (r, s')" for s2
    proof (cases r)
      case (Inl err)
      with Cons.IH [OF that] show ?thesis by simp
    next
      case (Inr subjects)
      with Cons.IH [OF that] obtain new where
        n: "subjects = (acc @ [?sub]) @ new" "list_all2 (subject_of e) paths new" by auto
      from n so have "subjects = acc @ (?sub # new)"
        and "list_all2 (subject_of e) (p # paths) (?sub # new)"
        by simp_all
      then have "\<exists>new'. subjects = acc @ new' \<and> list_all2 (subject_of e) (p # paths) new'"
        by blast
      with Inr show ?thesis by simp
    qed
    show ?thesis
    proof (cases "out = []")
      case True
      from run have "inspect_loop e out root paths (acc @ [?sub]) s = (r, s')"
        unfolding True inspect_loop_no_out [OF Some] .
      then show ?thesis by (rule step)
    next
      case False
      show ?thesis
      proof (cases "(if root \<noteq> [] then filepath_Abs e (world s) p else Some p)")
        case None
        from run have "r = Inl ErrAbs"
          unfolding inspect_loop_abs_failed [OF Some False None] by simp
        then show ?thesis by (simp add: is_read_or_copy_error_simps)
      next
        case ab: (Some path')
        show ?thesis
        proof (cases "filepath_Rel e root path'")
          case None
          from run have "r = Inl (ErrRel root path')"
            unfolding inspect_loop_rel_failed [OF Some False ab None] by simp
          then show ?thesis by (simp add: is_read_or_copy_error_simps)
        next
          case rel: (Some relPath)
          obtain wr w' where wo: "write_output e (world s) relPath out data = (wr, w')"
            by (metis prod.exhaust)
          note eq = inspect_loop_write [OF Some False ab rel wo, of paths acc]
          show ?thesis
          proof (cases wr)
            case CreateFailed
            from run have "r = Inl ErrCreateOutputFile" unfolding eq CreateFailed by simp
            then show ?thesis by (simp add: is_read_or_copy_error_simps)
          next
            case WriteFailed
            from run have "r = Inl ErrWriteOutputFile" unfolding eq WriteFailed by simp
            then show ?thesis by (simp add: is_read_or_copy_error_simps)
          next
            case Written
            from run have "inspect_loop e out root paths (acc @ [?sub]) (s\<lparr>world := w'\<rparr>) = (r, s')"
              unfolding eq Written by simp
            then show ?thesis by (rule step)
          qed
        qed
      qed
    qed
  qed
qed

lemma inspect_loop_copied:
  assumes "copied e out root (world s) p data w'"
  shows "inspect_loop e out root (p # paths) acc s
           = inspect_loop e out root paths (acc @ [toIntotoSubject e data p]) (s\<lparr>world := w'\<rparr>)"
proof (cases "out = []")
  case True
  with assms have "SafeReadFile e (world s) p = Some data" "w' = world s"
    by (simp_all add: copied_def)
  then show ?thesis unfolding True by (simp add: inspect_loop_no_out del: inspect_loop.simps)
next
  case False
  from assms have rd: "SafeReadFile e (world s) p = Some data" by (simp add: copied_def)
  from assms False obtain path' where
    ab: "(if root \<noteq> [] then filepath_Abs e (world s) p else Some p) = Some path'"
    by (auto simp: copied_def split: option.splits)
  from assms False ab obtain relPath where rel: "filepath_Rel e root path' = Some relPath"
    by (auto simp: copied_def split: option.splits)
  from assms False ab rel have wo: "write_output e (world s) relPath out data = (Written, w')"
    by (auto simp: copied_def split: option.splits)
  show ?thesis
    unfolding inspect_loop_write [OF rd False ab rel wo] by (simp del: inspect_loop.simps)
qed

lemma inspect_loop_copy_fails:
  assumes "copy_fails e out root (world s) p err w'"
  shows "inspect_loop e out root (p # paths) acc s = (Inl err, s\<lparr>world := w'\<rparr>)"
proof (cases "SafeReadFile e (world s) p")
  case None
  with assms have "err = ErrReadFile p" "w' = world s" by (simp_all add: copy_fails_def)
  then show ?thesis by (simp add: inspect_loop_unread [OF None] del: inspect_loop.simps)
next
  case (Some data)
  with assms have ne: "out \<noteq> []" by (simp add: copy_fails_def)
  show ?thesis
  proof (cases "(if root \<noteq> [] then filepath_Abs e (world s) p else Some p)")
    case None
    with assms Some have "err = ErrAbs" "w' = world s" by (simp_all add: copy_fails_def)
    then show ?thesis by (simp add: inspect_loop_abs_failed [OF Some ne None] del: inspect_loop.simps)
  next
    case ab: (Some path')
    show ?thesis
    proof (cases "filepath_Rel e root path'")
      case None
      with assms Some ab have "err = ErrRel root path'" "w' = world s"
        by (simp_all add: copy_fails_def)
      then show ?thesis by (simp add: inspect_loop_rel_failed [OF Some ne ab None] del: inspect_loop.simps)
    next
      case rel: (Some relPath)
      obtain wr w2 where wo: "write_output e (world s) relPath out data = (wr, w2)"
        by (metis prod.exhaust)
      from assms Some ab rel wo have
        "(wr = CreateFailed \<and> err = ErrCreateOutputFile \<or> wr = WriteFailed \<and> err = ErrWriteOutputFile)
         \<and> w' = w2"
        by (cases wr) (simp_all add: copy_fails_def)
      then show ?thesis
        unfolding inspect_loop_write [OF Some ne ab rel wo] by (auto simp del: inspect_loop.simps)
    qed
  qed
qed

lemma copied_or_fails:
  "(\<exists>data w'. copied e out root w p data w') \<or> (\<exists>err w'. copy_fails e out root w p err w')"
proof (cases "SafeReadFile e w p")
  case None
  then show ?thesis by (simp add: copy_fails_def)
next
  case (Some data)
  show ?thesis
  proof (cases "out = []")
    case True
    with Some show ?thesis by (simp add: copied_def)
  next
    case False
    show ?thesis
    proof (cases "(if root \<noteq> [] then filepath_Abs e w p else Some p)")
      case None
      with Some False show ?thesis by (simp add: copy_fails_def)
    next
      case ab: (Some path')
      show ?thesis
      proof (cases "filepath_Rel e root path'")
        case None
        with Some False ab show ?thesis by (simp add: copy_fails_def)
      next
        case rel: (Some relPath)
        obtain wr w2 where wo: "write_output e w relPath out data = (wr, w2)"
          by (metis prod.exhaust)
        show ?thesis
        proof (cases wr)
          case Written
          with Some False ab rel wo have "copied e out root w p data w2" by (simp add: copied_def)
          then show ?thesis by blast
        qed (use Some False ab rel wo in \<open>simp_all add: copy_fails_def\<close>)
      qed
    qed
  qed
qed

lemma inspect_loop_prefix:
  assumes "k \<le> length paths" "length ws = Suc k" "length datas = k" "ws ! 0 = world s"
    and "\<forall>i<k. copied e out root (ws ! i) (paths ! i) (datas ! i) (ws ! Suc i)"
  shows "inspect_loop e out root paths acc s
           = inspect_loop e out root (drop k paths)
               (acc @ map (\<lambda>i. toIntotoSubject e (datas ! i) (paths ! i)) [0..<k])
               (s\<lparr>world := ws ! k\<rparr>)"
  using assms
proof (induction k arbitrary: paths ws datas acc s)
  case 0
  then show ?case by simp
next
  case (Suc k)
  from Suc.prems(1) obtain p ps where paths: "paths = p # ps" by (cases paths) auto
  from Suc.prems(2) obtain w0 ws1 where ws: "ws = w0 # ws1" by (cases ws) auto
  from Suc.prems(3) obtain d ds where datas: "datas = d # ds" by (cases datas) auto
  from Suc.prems(4) ws have w0: "w0 = world s" by simp
  from Suc.prems(5) have c0: "copied e out root (ws ! 0) (paths ! 0) (datas ! 0) (ws ! Suc 0)"
    by blast
  then have c0': "copied e out root (world s) p d (ws1 ! 0)"
    using paths ws datas w0 by simp
  have rest: "\<forall>i<k. copied e out root (ws1 ! i) (ps ! i) (ds ! i) (ws1 ! Suc i)"
  proof (intro allI impI)
    fix i assume "i < k"
    then have "Suc i < Suc k" by simp
    with Suc.prems(5) have "copied e out root (ws ! Suc i) (paths ! Suc i) (datas ! Suc i) (ws ! Suc (Suc i))"
      by blast
    then show "copied e out root (ws1 ! i) (ps ! i) (ds ! i) (ws1 ! Suc i)"
      using paths ws datas by simp
  qed
  have l: "k \<le> length ps" "length ws1 = Suc k" "length ds = k"
    using Suc.prems(1,2,3) paths ws datas by simp_all
  have w1: "ws1 ! 0 = world (s\<lparr>world := ws1 ! 0\<rparr>)" by simp
  note ih = Suc.IH [OF l w1 rest, of "acc @ [toIntotoSubject e d p]"]
  have m: "map (\<lambda>i. toIntotoSubject e (datas ! i) (paths ! i)) [0..<Suc k]
             = toIntotoSubject e d p # map (\<lambda>i. toIntotoSubject e (ds ! i) (ps ! i)) [0..<k]"
    unfolding paths datas by (simp only: map_upt_Suc) simp
  show ?case
    unfolding m
    unfolding paths inspect_loop_copied [OF c0'] ih
    using ws by (simp del: inspect_loop.simps)
qed

text \<open>
  Claim C7, amended: a matched file that cannot be read, or cannot be copied to the output
  folder, is an error. After a build command that succeeded: when the pattern matches no
  file, \<open>BuildArtifacts\<close> fails with the error of no matching files. When it matches
  \<open>n \<ge> 1\<close> files, they are taken in the order of the match, each in the world the one
  before it left (\<open>ws ! i\<close> for the \<open>i\<close>-th). When every one is read and, with an output
  folder, copied there, \<open>BuildArtifacts\<close> returns exactly \<open>n\<close> subjects, the \<open>i\<close>-th with the
  base name of the \<open>i\<close>-th match and the digest of the bytes read from it, in the world
  after the last copy. When the first \<open>k\<close> are read and copied and the next one is not,
  \<open>BuildArtifacts\<close> fails with the error of that file (of the read, of the absolute or the
  relative path, of the creation of or the write to the output file) in the world that
  file left, and returns no subject. One of the two holds of every file in every world
  (\<open>copied_or_fails\<close>), so the result is determined. In every case the result is such an
  error or \<open>n\<close> subjects of the matches; with no output folder and every match readable
  the state is the one after the build. A digest is in lower-case hexadecimal, two digits
  for each byte of the SHA256 sum.
\<close>

theorem C7_artifacts_after_build:
  assumes "runDockerRun e db s = (None, s1)"
    and "Glob e (world s1) (ArtifactPath (buildConfig db)) = Some matches"
  shows "(matches = [] \<longrightarrow>
            BuildArtifacts e db outputFolder s
              = (Inl (ErrNoFilesMatching (ArtifactPath (buildConfig db))), s1))
       \<and> (matches \<noteq> [] \<and> length ws = Suc (length matches) \<and> length datas = length matches
            \<and> ws ! 0 = world s1
            \<and> (\<forall>i<length matches.
                  copied e outputFolder (RepoRoot (RepoInfo db)) (ws ! i) (matches ! i) (datas ! i)
                    (ws ! Suc i)) \<longrightarrow>
            BuildArtifacts e db outputFolder s
              = (Inr (map (\<lambda>i. \<lparr>Name = Base (matches ! i),
                                 Digest_subj = [(''sha256'',
                                   EncodeToString (Sum256 e (datas ! i)))]\<rparr>)
                        [0..<length matches]),
                 s1\<lparr>world := ws ! length matches\<rparr>))
       \<and> (k < length matches \<and> length vs = Suc k \<and> length ds = k \<and> vs ! 0 = world s1
            \<and> (\<forall>i<k.
                  copied e outputFolder (RepoRoot (RepoInfo db)) (vs ! i) (matches ! i) (ds ! i)
                    (vs ! Suc i))
            \<and> copy_fails e outputFolder (RepoRoot (RepoInfo db)) (vs ! k) (matches ! k) err w' \<longrightarrow>
            BuildArtifacts e db outputFolder s = (Inl err, s1\<lparr>world := w'\<rparr>))
       \<and> (matches \<noteq> [] \<longrightarrow>
            (case fst (BuildArtifacts e db outputFolder s) of
               Inl err \<Rightarrow> is_read_or_copy_error err
             | Inr subjects \<Rightarrow>
                 length subjects = length matches \<and> list_all2 (subject_of e) matches subjects))
       \<and> (matches \<noteq> [] \<and> (\<forall>p\<in>set matches. SafeReadFile e (world s1) p \<noteq> None) \<longrightarrow>
            BuildArtifacts e db [] s
              = (Inr (map (\<lambda>p. \<lparr>Name = Base p,
                                 Digest_subj = [(''sha256'',
                                   EncodeToString (Sum256 e (the (SafeReadFile e (world s1) p))))]\<rparr>)
                        matches), s1))
       \<and> (\<forall>data. set (EncodeToString (Sum256 e data)) \<subseteq> set ''0123456789abcdef''
                 \<and> length (EncodeToString (Sum256 e data)) = 2 * length (Sum256 e data))"
proof -
  let ?root = "RepoRoot (RepoInfo db)"
  have ba: "BuildArtifacts e db out s = inspect_loop e out ?root matches [] s1"
    if "matches \<noteq> []" for out
    using assms that by (simp add: BuildArtifacts_def inspectAndWriteArtifacts_def)
  have a: "BuildArtifacts e db outputFolder s
              = (Inl (ErrNoFilesMatching (ArtifactPath (buildConfig db))), s1)" if "matches = []"
    using assms that by (simp add: BuildArtifacts_def inspectAndWriteArtifacts_def)
  have e: "BuildArtifacts e db outputFolder s
              = (Inr (map (\<lambda>i. \<lparr>Name = Base (matches ! i),
                                 Digest_subj = [(''sha256'',
                                   EncodeToString (Sum256 e (datas ! i)))]\<rparr>)
                        [0..<length matches]),
                 s1\<lparr>world := ws ! length matches\<rparr>)"
    if ne: "matches \<noteq> []" and l: "length ws = Suc (length matches)" "length datas = length matches"
      and w0: "ws ! 0 = world s1"
      and c: "\<forall>i<length matches.
                  copied e outputFolder ?root (ws ! i) (matches ! i) (datas ! i) (ws ! Suc i)"
  proof -
    have "inspect_loop e outputFolder ?root matches [] s1
            = inspect_loop e outputFolder ?root (drop (length matches) matches)
                ([] @ map (\<lambda>i. toIntotoSubject e (datas ! i) (matches ! i)) [0..<length matches])
                (s1\<lparr>world := ws ! length matches\<rparr>)"
      by (rule inspect_loop_prefix [OF order_refl l w0 c])
    then show ?thesis
      unfolding ba [OF ne] by (simp add: toIntotoSubject_def)
  qed
  have f: "BuildArtifacts e db outputFolder s = (Inl err, s1\<lparr>world := w'\<rparr>)"
    if k: "k < length matches" and l: "length vs = Suc k" "length ds = k"
      and w0: "vs ! 0 = world s1"
      and c: "\<forall>i<k. copied e outputFolder ?root (vs ! i) (matches ! i) (ds ! i) (vs ! Suc i)"
      and cf: "copy_fails e outputFolder ?root (vs ! k) (matches ! k) err w'"
  proof -
    from k have ne: "matches \<noteq> []" by auto
    from k have kl: "k \<le> length matches" by simp
    from k have dr: "drop k matches = matches ! k # drop (Suc k) matches"
      by (simp add: Cons_nth_drop_Suc)
    let ?acc = "[] @ map (\<lambda>i. toIntotoSubject e (ds ! i) (matches ! i)) [0..<k]"
    have "inspect_loop e outputFolder ?root matches [] s1
            = inspect_loop e outputFolder ?root (drop k matches) ?acc (s1\<lparr>world := vs ! k\<rparr>)"
      by (rule inspect_loop_prefix [OF kl l w0 c])
    also have "\<dots> = (Inl err, (s1\<lparr>world := vs ! k\<rparr>)\<lparr>world := w'\<rparr>)"
      unfolding dr by (rule inspect_loop_copy_fails) (use cf in simp)
    finally show ?thesis unfolding ba [OF ne] by simp
  qed
  have b: "(case fst (BuildArtifacts e db outputFolder s) of
               Inl err \<Rightarrow> is_read_or_copy_error err
             | Inr subjects \<Rightarrow>
                 length subjects = length matches \<and> list_all2 (subject_of e) matches subjects)"
    if ne: "matches \<noteq> []"
  proof -
    obtain r s2 where il: "inspect_loop e outputFolder ?root matches [] s1 = (r, s2)"
      by (metis prod.exhaust)
    from inspect_loop_result [OF il] show ?thesis
      unfolding ba [OF ne] il by (cases r) (auto dest: list_all2_lengthD)
  qed
  have c: "BuildArtifacts e db [] s
              = (Inr (map (\<lambda>p. \<lparr>Name = Base p,
                                 Digest_subj = [(''sha256'',
                                   EncodeToString (Sum256 e (the (SafeReadFile e (world s1) p))))]\<rparr>)
                        matches), s1)"
    if "matches \<noteq> []" "\<forall>p\<in>set matches. SafeReadFile e (world s1) p \<noteq> None"
    using inspect_loop_no_copy [OF that(2), of ?root "[]"]
    unfolding ba [OF that(1)] by (simp add: toIntotoSubject_def)
  have d: "set (EncodeToString (Sum256 e data)) \<subseteq> set ''0123456789abcdef''" for data
    by (rule EncodeToString_lower)
  have l: "length (EncodeToString (Sum256 e data)) = 2 * length (Sum256 e data)" for data
    by (rule EncodeToString_length)
  show ?thesis
    apply (intro conjI impI allI)
    subgoal by (rule a)
    subgoal using e by blast
    subgoal using f by blast
    subgoal by (rule b)
    subgoal using c by blast
    subgoal by (rule d)
    subgoal by (rule l)
    done
qed

text \<open>
  Claim C7 (amended) in the example environments, with an output folder: two artifacts
  copied one after the other; the copy of the second one failing after the first was
  copied; and, as before, one artifact with no output folder, and no artifact.
\<close>

theorem C7_artifacts_after_build_witness:
  "BuildArtifacts two_files_env demo_build ''out'' demo_start
     = (Inr [\<lparr>Name = ''a.tar.gz'', Digest_subj = [(''sha256'', ''61'')]\<rparr>,
             \<lparr>Name = ''b.tar.gz'', Digest_subj = [(''sha256'', ''62'')]\<rparr>],
        \<lparr>world = 3,
          invoked = [[''docker'', ''run'', ''--volume=/tmp/release-1/repo:/workspace'',
                      ''--workdir=/workspace'', ''--rm'', ''example.com/img@sha256:abcd'',
                      ''make'', ''release'']]\<rparr>)
   \<and> BuildArtifacts second_copy_fails_env demo_build ''out'' demo_start
     = (Inl ErrWriteOutputFile,
        \<lparr>world = 2,
          invoked = [[''docker'', ''run'', ''--volume=/tmp/release-1/repo:/workspace'',
                      ''--workdir=/workspace'', ''--rm'', ''example.com/img@sha256:abcd'',
                      ''make'', ''release'']]\<rparr>)
   \<and> BuildArtifacts demo_env demo_build [] demo_start
     = (Inr [\<lparr>Name = ''app.tar.gz'', Digest_subj = [(''sha256'', ''01ab'')]\<rparr>],
        \<lparr>world = 1,
          invoked = [[''docker'', ''run'', ''--volume=/tmp/release-1/repo:/workspace'',
                      ''--workdir=/workspace'', ''--rm'', ''example.com/img@sha256:abcd'',
                      ''make'', ''release'']]\<rparr>)
   \<and> BuildArtifacts (demo_env\<lparr>glob_matches := (\<lambda>w p. [])\<rparr>) demo_build ''out'' demo_start
     = (Inl (ErrNoFilesMatching ''dist/*.tar.gz''),
        \<lparr>world = 1,
          invoked = [[''docker'', ''run'', ''--volume=/tmp/release-1/repo:/workspace'',
                      ''--workdir=/workspace'', ''--rm'', ''example.com/img@sha256:abcd'',
                      ''make'', ''release'']]\<rparr>)"
proof -
  let ?s1 = "\<lparr>world = 1::nat,
          invoked = [[''docker'', ''run'', ''--volume=/tmp/release-1/repo:/workspace'',
                      ''--workdir=/workspace'', ''--rm'', ''example.com/img@sha256:abcd'',
                      ''make'', ''release'']]\<rparr>"
  let ?two = "[''dist/a.tar.gz'', ''dist/b.tar.gz'']"
  let ?none = "demo_env\<lparr>glob_matches := (\<lambda>w p. [])\<rparr>"
  have r2: "runDockerRun two_files_env demo_build demo_start = (None, ?s1)" by code_simp
  have g2: "Glob two_files_env (world ?s1) (ArtifactPath (buildConfig demo_build)) = Some ?two"
    by code_simp
  have c20: "copied two_files_env ''out'' (RepoRoot (RepoInfo demo_build)) 1 ''dist/a.tar.gz'' ''a'' 2"
    by code_simp
  have c21: "copied two_files_env ''out'' (RepoRoot (RepoInfo demo_build)) 2 ''dist/b.tar.gz'' ''b'' 3"
    by code_simp
  have all2: "\<forall>i<length ?two. copied two_files_env ''out'' (RepoRoot (RepoInfo demo_build))
                 ([1, 2, 3] ! i) (?two ! i) ([''a'', ''b''] ! i) ([1, 2, 3] ! Suc i)"
    using c20 c21 by (simp add: less_Suc_eq numeral_2_eq_2 all_conj_distrib imp_conjL)
  have b2: "map Base ?two = [''a.tar.gz'', ''b.tar.gz'']" by code_simp
  have h2: "map (\<lambda>d. EncodeToString (Sum256 two_files_env d)) [''a'', ''b''] = [''61'', ''62'']"
    by code_simp
  have w1: "BuildArtifacts two_files_env demo_build ''out'' demo_start
     = (Inr [\<lparr>Name = ''a.tar.gz'', Digest_subj = [(''sha256'', ''61'')]\<rparr>,
             \<lparr>Name = ''b.tar.gz'', Digest_subj = [(''sha256'', ''62'')]\<rparr>], ?s1\<lparr>world := 3\<rparr>)"
    using C7_artifacts_after_build [OF r2 g2, where outputFolder = "''out''" and ws = "[1, 2, 3]"
            and datas = "[''a'', ''b'']"] all2 b2 h2
    by (simp add: upt_rec numeral_2_eq_2)
  have rf: "runDockerRun second_copy_fails_env demo_build demo_start = (None, ?s1)" by code_simp
  have gf: "Glob second_copy_fails_env (world ?s1) (ArtifactPath (buildConfig demo_build)) = Some ?two"
    by code_simp
  have cf0: "copied second_copy_fails_env ''out'' (RepoRoot (RepoInfo demo_build)) 1
               ''dist/a.tar.gz'' ''a'' 2"
    by code_simp
  have cf1: "copy_fails second_copy_fails_env ''out'' (RepoRoot (RepoInfo demo_build)) 2
               ''dist/b.tar.gz'' ErrWriteOutputFile 2"
    by code_simp
  have w2: "BuildArtifacts second_copy_fails_env demo_build ''out'' demo_start
     = (Inl ErrWriteOutputFile, ?s1\<lparr>world := 2\<rparr>)"
    using C7_artifacts_after_build [OF rf gf, where outputFolder = "''out''" and k = 1 and vs = "[1, 2]"
            and ds = "[''a'']" and err = ErrWriteOutputFile and w' = 2] cf0 cf1
    by simp
  have r: "runDockerRun demo_env demo_build demo_start = (None, ?s1)" by code_simp
  have g: "Glob demo_env (world ?s1) (ArtifactPath (buildConfig demo_build))
             = Some [''dist/app.tar.gz'']"
    by code_simp
  have rd: "\<forall>p\<in>set [''dist/app.tar.gz'']. SafeReadFile demo_env (world ?s1) p \<noteq> None"
    by (simp add: demo_env_def)
  have b: "Base ''dist/app.tar.gz'' = ''app.tar.gz''" by code_simp
  have h: "EncodeToString (Sum256 demo_env (the (SafeReadFile demo_env 1 ''dist/app.tar.gz'')))
             = ''01ab''"
    by code_simp
  have w3: "BuildArtifacts demo_env demo_build [] demo_start
     = (Inr [\<lparr>Name = ''app.tar.gz'', Digest_subj = [(''sha256'', ''01ab'')]\<rparr>], ?s1)"
    using C7_artifacts_after_build [OF r g, where outputFolder = "[]"] rd b h by simp
  have r0: "runDockerRun ?none demo_build demo_start = (None, ?s1)" by code_simp
  have g0: "Glob ?none (world ?s1) (ArtifactPath (buildConfig demo_build)) = Some []"
    by code_simp
  have w4: "BuildArtifacts ?none demo_build ''out'' demo_start
     = (Inl (ErrNoFilesMatching ''dist/*.tar.gz''), ?s1)"
    using C7_artifacts_after_build [OF r0 g0, where outputFolder = "''out''"] by (simp add: demo_build_def)
  from w1 w2 w3 w4 show ?thesis by simp
qed

text \<open>
  Claim C7 as stated fails when a match cannot be read (a directory, for one): the build
  succeeded and the pattern matches one file, and \<open>BuildArtifacts\<close> returns no subject but
  the error of the read.
\<close>

theorem C7_unreadable_match_counterexample:
  "fst (runDockerRun unreadable_env demo_build demo_start) = None
   \<and> Glob unreadable_env (world (snd (runDockerRun unreadable_env demo_build demo_start)))
        (ArtifactPath (buildConfig demo_build)) = Some [''dist/app.tar.gz'']
   \<and> fst (BuildArtifacts unreadable_env demo_build [] demo_start)
        = Inl (ErrReadFile ''dist/app.tar.gz'')"
  by code_simp

section \<open>The lines that the scanner returns\<close>

text \<open>For lines that are shorter than the buffer, have no carriage return at their end and
  end with a newline, the scanner returns every line in order.\<close>

lemma dropCR_id: "l = [] \<or> last l \<noteq> CHR 0x0D \<Longrightarrow> dropCR l = l"
  by (auto simp: dropCR_def)

lemma scan_lines_short_lines:
  assumes "\<forall>l\<in>set ls. CHR 0x0A \<notin> set l \<and> length l < MaxScanTokenSize
             \<and> (l = [] \<or> last l \<noteq> CHR 0x0D)"
  shows "scan_lines (concat (map (\<lambda>l. l @ [CHR 0x0A]) ls)) = ls"
  using assms
proof (induction ls)
  case Nil
  show ?case by (subst scan_lines.simps) simp
next
  case (Cons l ls)
  let ?rest = "concat (map (\<lambda>l. l @ [CHR 0x0A]) ls)"
  from Cons.prems have l: "CHR 0x0A \<notin> set l" "length l < MaxScanTokenSize"
    "l = [] \<or> last l \<noteq> CHR 0x0D" by simp_all
  have tw: "takeWhile (\<lambda>c. c \<noteq> CHR 0x0A) (l @ CHR 0x0A # ?rest) = l"
    using l(1) by (subst takeWhile_append2) auto
  have dw: "dropWhile (\<lambda>c. c \<noteq> CHR 0x0A) (l @ CHR 0x0A # ?rest) = CHR 0x0A # ?rest"
    using l(1) by (subst dropWhile_append2) auto
  have "scan_lines (l @ CHR 0x0A # ?rest) = l # scan_lines ?rest"
    using l(2) dropCR_id [OF l(3)]
    by (subst scan_lines.simps) (simp only: tw dw, simp)
  moreover from Cons have "scan_lines ?rest = ls" by simp
  ultimately show ?case by simp
qed

lemma long_line_first:
  "takeWhile (\<lambda>c. c \<noteq> CHR 0x0A) long_line_stream = replicate 65536 (CHR ''a'')"
  unfolding long_line_stream_def
  by (subst takeWhile_append2) simp_all

lemma scan_lines_long: "scan_lines long_line_stream = []"
proof -
  have "long_line_stream \<noteq> []" by (simp add: long_line_stream_def)
  moreover have "MaxScanTokenSize \<le> length (takeWhile (\<lambda>c. c \<noteq> CHR 0x0A) long_line_stream)"
    by (simp only: long_line_first length_replicate MaxScanTokenSize_def)
  ultimately show ?thesis by (subst scan_lines.simps) simp
qed

text \<open>
  Claim C8, at a stream whose first line has \<open>65536\<close> bytes. The scanner stops at this
  line, so that no line is collected: whatever the environment, the bytes written to the
  temporary file are empty and nothing is printed, although the stream has two lines. The
  claim asks for all lines of the stream in the file.
\<close>

theorem C8_long_line_dropped:
  "scan_lines long_line_stream = []
   \<and> saveOneTempFile e verb long_line_stream w =
       (case CreateTemp e w of
          (None, w1) \<Rightarrow> (([], Inl ErrCreateTemp), w1)
        | (Some tmpfile, w1) \<Rightarrow>
            (case file_Write e w1 tmpfile [] of
               (False, w2) \<Rightarrow> (([], Inl ErrWriteTemp), w2)
             | (True, w2) \<Rightarrow> (([], Inr tmpfile), w2)))"
  by (simp add: saveOneTempFile_def scan_lines_long split: prod.splits option.splits bool.splits)

section \<open>The build configuration of a provenance statement\<close>

text \<open>
  Claim C9, amended by the order of the checks. For a statement with container-based external
  parameters whose builder image URI is accepted by \<open>validateDockerImage\<close>:
  when the digest of the validated image differs from the digest that the builder image
  descriptor declares for the same algorithm, \<open>ToDockerBuildConfig\<close> fails with the error of
  the invalid image digest; when these agree and the digest set of the source has no \<open>sha1\<close>
  entry, it fails with the error of the missing source digest; when these agree and the
  entry is there, it returns the configuration with the URI of the source, the \<open>sha1\<close>
  digest of the source, the validated builder image and the config path of the external
  parameters.
\<close>

theorem C9_config_from_provenance:
  assumes "ExternalParameters (BuildDefinition (Predicate p)) = ContainerBased ep"
    and "validateDockerImage e (URI (BuilderImage ep)) = Some di"
  shows "(Value (Digest_img di) \<noteq> map_index (Digest (BuilderImage ep)) (Alg (Digest_img di)) \<longrightarrow>
            ToDockerBuildConfig e p force = Inl ErrInvalidImageDigest)
       \<and> (Value (Digest_img di) = map_index (Digest (BuilderImage ep)) (Alg (Digest_img di))
          \<and> map_get (Digest (Source ep)) ''sha1'' = None \<longrightarrow>
            ToDockerBuildConfig e p force = Inl ErrMissingSha1Digest)
       \<and> (Value (Digest_img di) = map_index (Digest (BuilderImage ep)) (Alg (Digest_img di))
          \<and> map_get (Digest (Source ep)) ''sha1'' = Some val \<longrightarrow>
            ToDockerBuildConfig e p force =
              Inr \<lparr>SourceRepo = URI (Source ep),
                   SourceDigest = \<lparr>Alg = ''sha1'', Value = val\<rparr>,
                   BuilderImage_cfg = di,
                   BuildConfigPath = ConfigPath ep,
                   ForceCheckout = force,
                   Verbose = False\<rparr>)"
  using assms by (simp add: ToDockerBuildConfig_def)

text \<open>Claim C9 (amended): the parameters of the example build, a source without a \<open>sha1\<close>
  digest, and a builder image with another digest.\<close>

theorem C9_config_from_provenance_witness:
  "ToDockerBuildConfig demo_env
     \<lparr>Predicate = \<lparr>BuildDefinition = CreateBuildDefinition demo_env demo_build\<rparr>\<rparr> True
     = Inr (demo_config\<lparr>ForceCheckout := True\<rparr>)
   \<and> ToDockerBuildConfig demo_env
     \<lparr>Predicate = \<lparr>BuildDefinition = \<lparr>BuildType = [],
        ExternalParameters = ContainerBased
          \<lparr>Source = \<lparr>URI = ''https://example.com/repo'', Digest = Some [(''sha256'', ''00'')]\<rparr>,
           BuilderImage = \<lparr>URI = ''example.com/img@sha256:abcd'',
                           Digest = Some [(''sha256'', ''abcd'')]\<rparr>,
           ConfigPath = ''build.toml'',
           Config = \<lparr>Command = None, ArtifactPath = []\<rparr>\<rparr>,
        ResolvedDependencies = None\<rparr>\<rparr>\<rparr> False
     = Inl ErrMissingSha1Digest
   \<and> ToDockerBuildConfig demo_env
     \<lparr>Predicate = \<lparr>BuildDefinition = \<lparr>BuildType = [],
        ExternalParameters = ContainerBased
          \<lparr>Source = \<lparr>URI = ''https://example.com/repo'', Digest = Some [(''sha1'', ''deadbeef'')]\<rparr>,
           BuilderImage = \<lparr>URI = ''example.com/img@sha256:abcd'',
                           Digest = Some [(''sha256'', ''ffff'')]\<rparr>,
           ConfigPath = ''build.toml'',
           Config = \<lparr>Command = None, ArtifactPath = []\<rparr>\<rparr>,
        ResolvedDependencies = None\<rparr>\<rparr>\<rparr> False
     = Inl ErrInvalidImageDigest"
proof -
  let ?di = "\<lparr>ImagePath = ''example.com/img'', ImageRef = [],
                   Digest_img = \<lparr>Alg = ''sha256'', Value = ''abcd''\<rparr>\<rparr>"
  let ?ep1 = "\<lparr>Source = sourceArtifact demo_config, BuilderImage = builderImage demo_env demo_config,
               ConfigPath = ''build.toml'',
               Config = \<lparr>Command = Some [''make'', ''release''], ArtifactPath = ''dist/*.tar.gz''\<rparr>\<rparr>"
  let ?ep2 = "\<lparr>Source = \<lparr>URI = ''https://example.com/repo'', Digest = Some [(''sha256'', ''00'')]\<rparr>,
           BuilderImage = \<lparr>URI = ''example.com/img@sha256:abcd'',
                           Digest = Some [(''sha256'', ''abcd'')]\<rparr>,
           ConfigPath = ''build.toml'',
           Config = \<lparr>Command = None, ArtifactPath = []\<rparr>\<rparr>"
  let ?ep3 = "\<lparr>Source = \<lparr>URI = ''https://example.com/repo'', Digest = Some [(''sha1'', ''deadbeef'')]\<rparr>,
           BuilderImage = \<lparr>URI = ''example.com/img@sha256:abcd'',
                           Digest = Some [(''sha256'', ''ffff'')]\<rparr>,
           ConfigPath = ''build.toml'',
           Config = \<lparr>Command = None, ArtifactPath = []\<rparr>\<rparr>"
  have e1: "ExternalParameters (BuildDefinition (Predicate
      \<lparr>Predicate = \<lparr>BuildDefinition = CreateBuildDefinition demo_env demo_build\<rparr>\<rparr>))
      = ContainerBased ?ep1"
    by (simp add: CreateBuildDefinition_def demo_build_def demo_config_def)
  have v1: "validateDockerImage demo_env (URI (BuilderImage ?ep1)) = Some ?di"
    by (simp add: builderImage_def demo_env_def demo_config_def)
  have e2: "ExternalParameters (BuildDefinition (Predicate
      \<lparr>Predicate = \<lparr>BuildDefinition = \<lparr>BuildType = [],
        ExternalParameters = ContainerBased ?ep2, ResolvedDependencies = None\<rparr>\<rparr>\<rparr>))
      = ContainerBased ?ep2"
    by simp
  have v2: "validateDockerImage demo_env (URI (BuilderImage ?ep2)) = Some ?di"
    by (simp add: demo_env_def)
  have e3: "ExternalParameters (BuildDefinition (Predicate
      \<lparr>Predicate = \<lparr>BuildDefinition = \<lparr>BuildType = [],
        ExternalParameters = ContainerBased ?ep3, ResolvedDependencies = None\<rparr>\<rparr>\<rparr>))
      = ContainerBased ?ep3"
    by simp
  have v3: "validateDockerImage demo_env (URI (BuilderImage ?ep3)) = Some ?di"
    by (simp add: demo_env_def)
  show ?thesis
    using C9_config_from_provenance [OF e1 v1, where force = True and val = "''deadbeef''"]
          C9_config_from_provenance [OF e2 v2, where force = False]
          C9_config_from_provenance [OF e3 v3, where force = False]
    by (simp add: map_get_def map_index_def builderImage_def sourceArtifact_def ToMap_def
          demo_config_def)
qed

text \<open>
  Claim C9 as stated fails when both checks fail: the digest set of the source has no
  \<open>sha1\<close> entry, and the error is the one of the image digest, which is checked first.
\<close>

theorem C9_two_failures_counterexample:
  "map_get (Digest (Source
      \<lparr>Source = \<lparr>URI = ''https://example.com/repo'', Digest = Some [(''sha256'', ''00'')]\<rparr>,
       BuilderImage = \<lparr>URI = ''example.com/img@sha256:abcd'',
                        Digest = Some [(''sha256'', ''ffff'')]\<rparr>,
       ConfigPath = ''build.toml'',
       Config = \<lparr>Command = None, ArtifactPath = []\<rparr>\<rparr>)) ''sha1'' = None
   \<and> ToDockerBuildConfig demo_env
     \<lparr>Predicate = \<lparr>BuildDefinition = \<lparr>BuildType = [],
        ExternalParameters = ContainerBased
          \<lparr>Source = \<lparr>URI = ''https://example.com/repo'', Digest = Some [(''sha256'', ''00'')]\<rparr>,
           BuilderImage = \<lparr>URI = ''example.com/img@sha256:abcd'',
                           Digest = Some [(''sha256'', ''ffff'')]\<rparr>,
           ConfigPath = ''build.toml'',
           Config = \<lparr>Command = None, ArtifactPath = []\<rparr>\<rparr>,
        ResolvedDependencies = None\<rparr>\<rparr>\<rparr> False
     = Inl ErrInvalidImageDigest
   \<and> ErrInvalidImageDigest \<noteq> ErrMissingSha1Digest"
  by code_simp

section \<open>The round trip of the external parameters through JSON\<close>

lemma coerce_valid: "valid_utf8 s \<Longrightarrow> coerce_utf8 s = s"
proof (induction s rule: coerce_utf8.induct)
  case 1
  then show ?case by (simp add: coerce_utf8.simps)
next
  case (2 b bs)
  from "2.prems" have n: "rune_size (b # bs) \<noteq> 0"
    and v: "valid_utf8 (drop (rune_size (b # bs)) (b # bs))"
    by (simp_all add: valid_utf8.simps(2) del: rune_size.simps split: if_splits)
  from "2.IH"(2) [OF n v] n show ?case
    by (simp add: coerce_utf8.simps(2) del: rune_size.simps)
qed

lemma ascii_valid: "list_all (\<lambda>c. c < CHR 0x80) s \<Longrightarrow> valid_utf8 s"
  by (induction s) (simp_all add: valid_utf8.simps)

lemma coerce_ascii: "list_all (\<lambda>c. c < CHR 0x80) s \<Longrightarrow> coerce_utf8 s = s"
  by (simp add: ascii_valid coerce_valid)

lemma key_simps:
  "coerce_utf8 ''source'' = ''source''"
  "coerce_utf8 ''builderImage'' = ''builderImage''"
  "coerce_utf8 ''configPath'' = ''configPath''"
  "coerce_utf8 ''config'' = ''config''"
  "coerce_utf8 ''uri'' = ''uri''"
  "coerce_utf8 ''digest'' = ''digest''"
  "coerce_utf8 ''command'' = ''command''"
  "coerce_utf8 ''artifactPath'' = ''artifactPath''"
  "coerce_utf8 ''predicate'' = ''predicate''"
  "coerce_utf8 ''buildDefinition'' = ''buildDefinition''"
  "coerce_utf8 ''buildType'' = ''buildType''"
  "coerce_utf8 ''externalParameters'' = ''externalParameters''"
  "coerce_utf8 ''resolvedDependencies'' = ''resolvedDependencies''"
  by (simp_all add: coerce_ascii)

lemma those_decode_strings:
  "\<forall>c\<in>set cs. valid_utf8 c \<Longrightarrow>
   those (map (\<lambda>c. decode_string (marshal_generic (to_generic (marshal_string c))) []) cs) = Some cs"
  by (induction cs) (simp_all add: decode_string_def marshal_string_def coerce_valid)

lemma slice_round_trip:
  assumes "\<forall>c\<in>set (case cmd of None \<Rightarrow> [] | Some cs \<Rightarrow> cs). valid_utf8 c"
  shows "decode_string_slice (marshal_generic (to_generic (marshal_string_slice cmd))) cur = Some cmd"
proof (cases cmd)
  case None
  then show ?thesis by (simp add: marshal_string_slice_def decode_string_slice_def)
next
  case (Some cs)
  with assms have v: "\<forall>c\<in>set cs. valid_utf8 c" by simp
  show ?thesis using Some those_decode_strings [OF v]
    by (simp add: marshal_string_slice_def decode_string_slice_def o_def)
qed

lemma string_round_trip:
  "valid_utf8 s \<Longrightarrow> decode_string (marshal_generic (to_generic (marshal_string s))) cur = Some s"
  by (simp add: marshal_string_def decode_string_def coerce_valid)

lemma digest_round_trip:
  "valid_utf8 a \<Longrightarrow> valid_utf8 v \<Longrightarrow>
   decode_string_map (marshal_generic (to_generic (marshal_string_map (Some [(a, v)])))) None
     = Some (Some [(a, v)])"
  by (simp add: marshal_string_map_def decode_string_map_def marshal_string_def decode_string_def
        put_all_def coerce_valid)


lemma rd_round_trip:
  assumes "valid_utf8 u" "valid_utf8 a" "valid_utf8 v"
  shows "decode_ResourceDescriptor
           (marshal_generic (to_generic (marshal_ResourceDescriptor \<lparr>URI = u, Digest = Some [(a, v)]\<rparr>)))
           zero_ResourceDescriptor
         = Some \<lparr>URI = u, Digest = Some [(a, v)]\<rparr>"
proof -
  have d: "decode_string_map (marshal_generic (to_generic (marshal_string_map (Some [(a, v)])))) None
             = Some (Some [(a, v)])"
    by (rule digest_round_trip [OF assms(2,3)])
  have s: "decode_string (marshal_generic (to_generic (marshal_string u))) [] = Some u"
    using assms(1) by (rule string_round_trip)
  show ?thesis
  proof (cases "u = []")
    case True
    with d show ?thesis
      by (simp add: marshal_ResourceDescriptor_def decode_ResourceDescriptor_def
            zero_ResourceDescriptor_def put_all_def key_simps find_field_def)
  next
    case False
    with d s show ?thesis
      by (simp add: marshal_ResourceDescriptor_def decode_ResourceDescriptor_def
            zero_ResourceDescriptor_def put_all_def key_simps find_field_def)
  qed
qed

lemma bc_round_trip:
  assumes "\<forall>c\<in>set (case Command bc of None \<Rightarrow> [] | Some cs \<Rightarrow> cs). valid_utf8 c"
    and "valid_utf8 (ArtifactPath bc)"
  shows "decode_BuildConfig (marshal_generic (to_generic (marshal_BuildConfig bc)))
           \<lparr>Command = None, ArtifactPath = []\<rparr> = Some bc"
proof -
  note c = slice_round_trip [OF assms(1), of None]
  note a = string_round_trip [OF assms(2), of "[]"]
  show ?thesis
    using c a
    by (simp add: marshal_BuildConfig_def decode_BuildConfig_def put_all_def key_simps
          find_field_def)
qed


lemma ep_round_trip:
  assumes "valid_utf8 u1" "valid_utf8 a1" "valid_utf8 v1"
    and "valid_utf8 u2" "valid_utf8 a2" "valid_utf8 v2"
    and "valid_utf8 cp"
    and "\<forall>c\<in>set (case Command bc of None \<Rightarrow> [] | Some cs \<Rightarrow> cs). valid_utf8 c"
    and "valid_utf8 (ArtifactPath bc)"
  shows "decode_ExternalParameters
           (marshal_generic (to_generic (marshal_ExternalParameters
              \<lparr>Source = \<lparr>URI = u1, Digest = Some [(a1, v1)]\<rparr>,
               BuilderImage = \<lparr>URI = u2, Digest = Some [(a2, v2)]\<rparr>,
               ConfigPath = cp, Config = bc\<rparr>)))
           zero_ExternalParameters
         = Some \<lparr>Source = \<lparr>URI = u1, Digest = Some [(a1, v1)]\<rparr>,
                 BuilderImage = \<lparr>URI = u2, Digest = Some [(a2, v2)]\<rparr>,
                 ConfigPath = cp, Config = bc\<rparr>"
proof -
  note r1 = rd_round_trip [OF assms(1,2,3)]
  note r2 = rd_round_trip [OF assms(4,5,6)]
  note r3 = string_round_trip [OF assms(7), of "[]"]
  note r4 = bc_round_trip [OF assms(8,9)]
  show ?thesis
    using r1 r2 r3 r4
    by (simp add: marshal_ExternalParameters_def decode_ExternalParameters_def put_all_def
          key_simps find_field_def zero_ExternalParameters_def)
qed

lemma rd_decode_direct:
  assumes "valid_utf8 u" "valid_utf8 a" "valid_utf8 v"
  shows "decode_ResourceDescriptor (marshal_ResourceDescriptor \<lparr>URI = u, Digest = Some [(a, v)]\<rparr>)
           zero_ResourceDescriptor
         = Some \<lparr>URI = u, Digest = Some [(a, v)]\<rparr>"
  using assms
  by (cases "u = []")
     (simp_all add: marshal_ResourceDescriptor_def decode_ResourceDescriptor_def
        zero_ResourceDescriptor_def put_all_def key_simps find_field_def marshal_string_def
        marshal_string_map_def decode_string_def decode_string_map_def coerce_valid)

lemma statement_decode:
  assumes "valid_utf8 u" "valid_utf8 a" "valid_utf8 v"
  shows "decode_Statement
           (marshal_Statement \<lparr>Predicate = \<lparr>BuildDefinition =
              \<lparr>BuildType = bt, ExternalParameters = ContainerBased ep,
               ResolvedDependencies = Some [\<lparr>URI = u, Digest = Some [(a, v)]\<rparr>]\<rparr>\<rparr>\<rparr>)
           zero_Statement
         = Some \<lparr>Predicate = \<lparr>BuildDefinition =
              \<lparr>BuildType = coerce_utf8 (coerce_utf8 bt),
               ExternalParameters = Untyped (to_generic (marshal_ExternalParameters ep)),
               ResolvedDependencies = Some [\<lparr>URI = u, Digest = Some [(a, v)]\<rparr>]\<rparr>\<rparr>\<rparr>"
proof -
  have i: "decode_interface (marshal_ExternalParameters ep)
             = Untyped (to_generic (marshal_ExternalParameters ep))"
    by (simp add: decode_interface_def marshal_ExternalParameters_def)
  show ?thesis
    using i rd_decode_direct [OF assms]
    by (simp add: marshal_Statement_def decode_Statement_def decode_Predicate_def
          decode_BuildDefinition_def marshal_BuildDefinition_def zero_Statement_def
          marshal_interface_def decode_descriptors_def decode_string_def marshal_string_def
          key_simps find_field_def)
qed

text \<open>
  Claim C1, amended by the condition that the strings of the external parameters are valid
  UTF-8. For the build definition that \<open>CreateBuildDefinition\<close> makes: when the URIs and
  digests of its source and builder image descriptors, its config path, and the command and
  artifact path of its config are valid UTF-8, parsing the JSON encoding of a statement with
  this build definition succeeds, and the external parameters of the parsed statement are
  equal to those of the build definition.
\<close>

theorem C1_round_trip:
  assumes "ExternalParameters (CreateBuildDefinition e db) = ContainerBased ep"
    and "valid_parameters ep"
  shows "\<exists>st. ParseProvenance
                (Some (marshal_Statement
                         \<lparr>Predicate = \<lparr>BuildDefinition = CreateBuildDefinition e db\<rparr>\<rparr>))
              = Inr st
            \<and> ExternalParameters (BuildDefinition (Predicate st)) = ContainerBased ep"
proof -
  let ?cfg = "config db"
  let ?src = "\<lparr>URI = SourceRepo ?cfg,
               Digest = Some [(Alg (SourceDigest ?cfg), Value (SourceDigest ?cfg))]\<rparr>"
  let ?img = "\<lparr>URI = ImageToString e (BuilderImage_cfg ?cfg),
               Digest = Some [(Alg (Digest_img (BuilderImage_cfg ?cfg)),
                               Value (Digest_img (BuilderImage_cfg ?cfg)))]\<rparr>"
  from assms(1) have ep: "ep = \<lparr>Source = ?src, BuilderImage = ?img,
      ConfigPath = BuildConfigPath ?cfg, Config = buildConfig db\<rparr>"
    by (simp add: CreateBuildDefinition_def sourceArtifact_def builderImage_def ToMap_def)
  have d: "CreateBuildDefinition e db =
      \<lparr>BuildType = ContainerBasedBuildType e, ExternalParameters = ContainerBased ep,
       ResolvedDependencies = Some [?src]\<rparr>"
    unfolding ep by (simp add: CreateBuildDefinition_def sourceArtifact_def builderImage_def ToMap_def)
  from assms(2) have v:
    "valid_utf8 (SourceRepo ?cfg)" "valid_utf8 (Alg (SourceDigest ?cfg))"
    "valid_utf8 (Value (SourceDigest ?cfg))"
    "valid_utf8 (ImageToString e (BuilderImage_cfg ?cfg))"
    "valid_utf8 (Alg (Digest_img (BuilderImage_cfg ?cfg)))"
    "valid_utf8 (Value (Digest_img (BuilderImage_cfg ?cfg)))"
    "valid_utf8 (BuildConfigPath ?cfg)"
    "\<forall>c\<in>set (case Command (buildConfig db) of None \<Rightarrow> [] | Some cs \<Rightarrow> cs). valid_utf8 c"
    "valid_utf8 (ArtifactPath (buildConfig db))"
    unfolding ep valid_parameters_def valid_descriptor_def by (simp_all add: list_all_iff)
  note sd = statement_decode [OF v(1,2,3), of "ContainerBasedBuildType e" ep]
  note rt = ep_round_trip [OF v]
  show ?thesis
    unfolding d ParseProvenance_def using sd rt
    by (simp add: marshal_interface_def ep Let_def)
qed


text \<open>Claim C1 (amended) for the example build with a config path that is not ASCII.\<close>

theorem C1_round_trip_witness:
  "\<exists>st. ParseProvenance
          (Some (marshal_Statement
                   \<lparr>Predicate = \<lparr>BuildDefinition = CreateBuildDefinition demo_env accent_build\<rparr>\<rparr>))
        = Inr st
      \<and> ExternalParameters (BuildDefinition (Predicate st))
          = ContainerBased (demo_parameters\<lparr>ConfigPath := ''caf'' @ [CHR 0xC3, CHR 0xA9]\<rparr>)"
proof -
  have 1: "ExternalParameters (CreateBuildDefinition demo_env accent_build)
             = ContainerBased (demo_parameters\<lparr>ConfigPath := ''caf'' @ [CHR 0xC3, CHR 0xA9]\<rparr>)"
    by code_simp
  have 2: "valid_parameters (demo_parameters\<lparr>ConfigPath := ''caf'' @ [CHR 0xC3, CHR 0xA9]\<rparr>)"
    by code_simp
  show ?thesis by (rule C1_round_trip [OF 1 2])
qed

text \<open>
  Claim C1 as stated fails for a config path that is not valid UTF-8: the byte \<open>0xFF\<close> is
  written as the replacement character, and the parsed config path is the three bytes of
  its encoding.
\<close>

theorem C1_invalid_utf8_counterexample:
  "ExternalParameters (CreateBuildDefinition demo_env invalid_path_build)
     = ContainerBased (demo_parameters\<lparr>ConfigPath := [CHR 0xFF]\<rparr>)
   \<and> ParseProvenance
       (Some (marshal_Statement
                \<lparr>Predicate = \<lparr>BuildDefinition = CreateBuildDefinition demo_env invalid_path_build\<rparr>\<rparr>))
     = Inr \<lparr>Predicate = \<lparr>BuildDefinition =
         \<lparr>BuildType = ''https://slsa.dev/container-based-build/v0.1?draft'',
          ExternalParameters =
            ContainerBased (demo_parameters\<lparr>ConfigPath := [CHR 0xEF, CHR 0xBF, CHR 0xBD]\<rparr>),
          ResolvedDependencies = Some [Source demo_parameters]\<rparr>\<rparr>\<rparr>
   \<and> demo_parameters\<lparr>ConfigPath := [CHR 0xEF, CHR 0xBF, CHR 0xBD]\<rparr>
       \<noteq> demo_parameters\<lparr>ConfigPath := [CHR 0xFF]\<rparr>"
  by code_simp

end
